theory Spec2Isabelle
  imports Main "HOL-Library.Word"
begin

section \<open>Event sets (H5ES.c): data model\<close>

text \<open>
  The source file holds the public entry points of the event-set module:
  \<open>H5EScreate\<close>, \<open>H5ESget_count\<close>, \<open>H5ESget_op_counter\<close>, \<open>H5ESwait\<close>,
  \<open>H5ESget_err_status\<close>, \<open>H5ESget_err_count\<close>, \<open>H5ESget_err_info\<close> and
  \<open>H5ESclose\<close>. Each validates its arguments and then calls into the package
  (\<open>H5ES__wait\<close>, \<open>H5ES__get_err_info\<close>, \<open>H5ES__list_count\<close>, \<open>H5ES__create\<close>)
  or into the identifier registry (\<open>H5I_object_verify\<close>, \<open>H5I_get_type\<close>,
  \<open>H5I_dec_app_ref\<close>). The entry points are embedded from the C text; the
  package and registry routines they call are embedded from the specification
  and are marked as such. \<open>H5EScreate\<close> is not embedded: nothing below
  depends on how an identifier is allocated.
\<close>

subsection \<open>Error stack and return codes\<close>

text \<open>
  \<open>HGOTO_ERROR (maj, min, FAIL, msg)\<close> pushes a frame on the error stack and
  makes the function return \<open>FAIL\<close>. A frame is the pair of major and minor
  code (the message text is left out); the stack is a list whose head is the
  frame pushed last. \<open>herr_t\<close> is \<open>SUCCEED\<close>, or \<open>FAIL\<close> together with
  the error stack the call leaves behind.

  The specification's names for the kinds: BAD_HANDLE is
  \<open>(H5E_ARGS, H5E_BADTYPE)\<close>, BAD_VALUE is \<open>(H5E_ARGS, H5E_BADVALUE)\<close>,
  CANT_WAIT is \<open>(H5E_EVENTSET, H5E_CANTWAIT)\<close>, CANT_GET is
  \<open>(H5E_EVENTSET, H5E_CANTGET)\<close>. \<open>BUSY\<close> is raised by code outside the
  source file and keeps the specification's name. Codes that the source file
  does not name (those of the runtime's own errors) are \<open>H5E_MAJOR_OTHER n\<close>
  and \<open>H5E_MINOR_OTHER n\<close>.
\<close>

datatype H5E_major = H5E_ARGS | H5E_EVENTSET | H5E_MAJOR_OTHER nat

datatype H5E_minor =
    H5E_BADTYPE | H5E_BADVALUE | H5E_CANTWAIT | H5E_CANTGET | H5E_CANTDEC
  | BUSY | H5E_MINOR_OTHER nat

type_synonym H5E_frame = "H5E_major \<times> H5E_minor"

datatype herr_t = SUCCEED | FAIL "H5E_frame list"

subsection \<open>Pointers to caller memory\<close>

text \<open>
  An out-parameter is a pointer to a cell of the caller: \<open>None\<close> is the NULL
  pointer, \<open>Some v\<close> a valid pointer whose cell holds \<open>v\<close>. A function that
  takes such a pointer returns the cell after the call. Storing through NULL
  is an invalid memory access; \<open>ptr_store\<close> has no result there.
  An array argument is a pointer to a list; storing more elements than the
  array has is an invalid access as well.
\<close>

type_synonym 'a ptr = "'a option"

definition ptr_store :: "'a ptr \<Rightarrow> 'a \<Rightarrow> 'a ptr option" where
  "ptr_store p v = (case p of None \<Rightarrow> None | Some old \<Rightarrow> Some (Some v))"

definition array_store :: "'a list ptr \<Rightarrow> 'a list \<Rightarrow> 'a list ptr option" where
  "array_store p vs =
     (case p of
        None \<Rightarrow> None
      | Some old \<Rightarrow>
          if length vs \<le> length old then Some (Some (vs @ drop (length vs) old))
          else None)"

text \<open>
  What a call does: it returns, it performs an invalid memory access, or it
  never returns.
\<close>

datatype 'a outcome = Returns 'a | Fault | Diverges

subsection \<open>Operation records and event sets\<close>

text \<open>
  Modelled from the spec: the record and event-set structures are declared in
  the package header \<open>H5ESpkg.h\<close>, which is not among the source files. The
  fields follow section 3 of the specification; the entry points show
  \<open>active\<close>, \<open>failed\<close>, \<open>op_counter\<close> (read into a \<open>uint64_t\<close>) and
  \<open>err_occurred\<close>. The intrusive links \<open>prev\<close>/\<open>next\<close> are the list itself.
  The statuses carry the prefix \<open>H5ES_STATUS_\<close> since \<open>SUCCEED\<close> and
  \<open>FAIL\<close> are the return codes. The optional user callbacks
  \<open>insert_func\<close>/\<open>complete_func\<close> are not installed by any operation
  described here and are not part of the model.
\<close>

datatype H5ES_status =
    H5ES_STATUS_IN_PROGRESS | H5ES_STATUS_SUCCEED | H5ES_STATUS_FAIL | H5ES_STATUS_CANCEL

type_synonym token = nat

record H5ES_event_t =
  counter :: "64 word"
  api_name :: string
  app_file :: string
  app_func :: string
  app_line :: "32 word"
  app_version :: string
  timestamp :: "64 word"
  token :: token
  status :: H5ES_status

record H5ES_t =
  active :: "H5ES_event_t list"
  failed :: "H5ES_event_t list"
  op_counter :: "64 word"
  err_occurred :: bool

text \<open>
  Modelled from the spec: \<open>H5ES__list_count\<close> (section 4.2, \<open>count(list)\<close>:
  "returns current length"). \<open>size_t\<close> values are natural numbers here: a
  list in memory never reaches \<open>2 ^ 64\<close> entries.
\<close>

definition H5ES__list_count :: "H5ES_event_t list \<Rightarrow> nat" where
  "H5ES__list_count el = length el"

text \<open>
  Modelled from the spec: \<open>H5ES__create\<close> (section 4.3, \<open>create()\<close>, and the
  lifecycle of section 3: "created empty (both lists empty, counter 0, flag
  false)").
\<close>

definition H5ES__create :: "H5ES_t" where
  "H5ES__create = \<lparr>active = [], failed = [], op_counter = 0, err_occurred = False\<rparr>"

subsection \<open>The identifier registry\<close>

text \<open>
  Modelled from the spec: the registry (\<open>H5I\<close>) is an external collaborator
  that "maps a public integer identifier to an event set and back". An
  identifier that is registered has an object. Of the
  enumeration \<open>H5I_type_t\<close> the source names \<open>H5I_EVENTSET\<close> only; the other
  members are \<open>H5I_OTHER n\<close>, and \<open>H5I_BADID\<close> is what \<open>H5I_get_type\<close>
  answers for an identifier that is not registered. An object of another type
  is represented by its type alone.
\<close>

type_synonym hid_t = int

datatype H5I_type_t = H5I_BADID | H5I_EVENTSET | H5I_OTHER nat

datatype H5I_object = ES_object H5ES_t | Other_object nat

record H5I_id_info =
  object :: H5I_object

type_synonym H5I_registry = "hid_t \<rightharpoonup> H5I_id_info"

definition H5I_get_type :: "H5I_registry \<Rightarrow> hid_t \<Rightarrow> H5I_type_t" where
  "H5I_get_type reg hid =
     (case reg hid of
        None \<Rightarrow> H5I_BADID
      | Some info \<Rightarrow>
          (case object info of ES_object es \<Rightarrow> H5I_EVENTSET | Other_object n \<Rightarrow> H5I_OTHER n))"

text \<open>
  Modelled from the spec: \<open>H5I_object_verify\<close> answers the object when
  the identifier is registered with the type asked for, and NULL otherwise.
  The entry points ask for \<open>H5I_EVENTSET\<close> only, so the answer is an event
  set.
\<close>

definition H5I_object_verify :: "H5I_registry \<Rightarrow> hid_t \<Rightarrow> H5I_type_t \<Rightarrow> H5ES_t option" where
  "H5I_object_verify reg hid ty =
     (case reg hid of
        None \<Rightarrow> None
      | Some info \<Rightarrow>
          (case object info of
             ES_object es \<Rightarrow> if ty = H5I_EVENTSET then Some es else None
           | Other_object n \<Rightarrow> None))"

text \<open>Writing back through the pointer that \<open>H5I_object_verify\<close> returned.\<close>

definition H5I_object_update :: "H5I_registry \<Rightarrow> hid_t \<Rightarrow> H5ES_t \<Rightarrow> H5I_registry" where
  "H5I_object_update reg hid es =
     (case reg hid of
        None \<Rightarrow> reg
      | Some info \<Rightarrow> reg(hid \<mapsto> info\<lparr>object := ES_object es\<rparr>))"

subsection \<open>The asynchronous runtime and the state of the library\<close>

text \<open>
  Modelled from the spec: the asynchronous runtime of section 6, a pluggable
  collaborator. \<open>poll\<close> answers a status, or an error stack when the runtime
  reports a structural error; it may block for up to the budget, which shows
  in the clock \<open>now_ns\<close> of the state it returns. \<open>snapshot_diagnostics\<close>
  answers the diagnostic frames of a failed operation, or an error stack.
  \<open>release\<close> gives a token back. \<open>poll_budget\<close> is the engine's choice of
  a per-record budget, which the specification bounds by the remaining budget
  and otherwise leaves open.
\<close>

type_synonym diag_stack = "string list"

record 'rt async_runtime =
  poll :: "'rt \<Rightarrow> token \<Rightarrow> nat \<Rightarrow> (H5E_frame list + H5ES_status) \<times> 'rt"
  now_ns :: "'rt \<Rightarrow> nat"
  snapshot_diagnostics :: "'rt \<Rightarrow> token \<Rightarrow> (H5E_frame list + diag_stack) \<times> 'rt"
  release :: "'rt \<Rightarrow> token \<Rightarrow> 'rt"
  poll_budget :: "nat \<Rightarrow> nat"

text \<open>
  The state the entry points work on: the registry, the state of the runtime,
  and the log of the polls issued so far, one list for each sweep of the wait
  engine, oldest first. A poll is logged with its token, the budget it was
  given, the clock when it was issued, and the answer.
\<close>

type_synonym poll_event = "token \<times> nat \<times> nat \<times> (H5E_frame list + H5ES_status)"

record 'rt world =
  ids :: H5I_registry
  runtime :: 'rt
  poll_log :: "poll_event list list"

section \<open>The read-only entry points\<close>

text \<open>
  \<open>H5ESget_count\<close>, \<open>H5ESget_op_counter\<close>, \<open>H5ESget_err_status\<close> and
  \<open>H5ESget_err_count\<close>: verify the identifier, then store through the
  out-pointer if it is not NULL.
\<close>

definition H5ESget_count ::
  "'rt world \<Rightarrow> hid_t \<Rightarrow> nat ptr \<Rightarrow> (herr_t \<times> nat ptr \<times> 'rt world) outcome" where
  "H5ESget_count w es_id count =
     (case H5I_object_verify (ids w) es_id H5I_EVENTSET of
        None \<Rightarrow> Returns (FAIL [(H5E_ARGS, H5E_BADTYPE)], count, w)
      | Some es \<Rightarrow>
          if count \<noteq> None then
            (case ptr_store count (H5ES__list_count (active es)) of
               None \<Rightarrow> Fault
             | Some count' \<Rightarrow> Returns (SUCCEED, count', w))
          else Returns (SUCCEED, count, w))"

definition H5ESget_op_counter ::
  "'rt world \<Rightarrow> hid_t \<Rightarrow> 64 word ptr \<Rightarrow> (herr_t \<times> 64 word ptr \<times> 'rt world) outcome" where
  "H5ESget_op_counter w es_id op_counter_p =
     (case H5I_object_verify (ids w) es_id H5I_EVENTSET of
        None \<Rightarrow> Returns (FAIL [(H5E_ARGS, H5E_BADTYPE)], op_counter_p, w)
      | Some es \<Rightarrow>
          if op_counter_p \<noteq> None then
            (case ptr_store op_counter_p (op_counter es) of
               None \<Rightarrow> Fault
             | Some p' \<Rightarrow> Returns (SUCCEED, p', w))
          else Returns (SUCCEED, op_counter_p, w))"

definition H5ESget_err_status ::
  "'rt world \<Rightarrow> hid_t \<Rightarrow> bool ptr \<Rightarrow> (herr_t \<times> bool ptr \<times> 'rt world) outcome" where
  "H5ESget_err_status w es_id err_status =
     (case H5I_object_verify (ids w) es_id H5I_EVENTSET of
        None \<Rightarrow> Returns (FAIL [(H5E_ARGS, H5E_BADTYPE)], err_status, w)
      | Some es \<Rightarrow>
          if err_status \<noteq> None then
            (case ptr_store err_status (err_occurred es) of
               None \<Rightarrow> Fault
             | Some p' \<Rightarrow> Returns (SUCCEED, p', w))
          else Returns (SUCCEED, err_status, w))"

definition H5ESget_err_count ::
  "'rt world \<Rightarrow> hid_t \<Rightarrow> nat ptr \<Rightarrow> (herr_t \<times> nat ptr \<times> 'rt world) outcome" where
  "H5ESget_err_count w es_id num_errs =
     (case H5I_object_verify (ids w) es_id H5I_EVENTSET of
        None \<Rightarrow> Returns (FAIL [(H5E_ARGS, H5E_BADTYPE)], num_errs, w)
      | Some es \<Rightarrow>
          if num_errs \<noteq> None then
            (if err_occurred es then
               (case ptr_store num_errs (H5ES__list_count (failed es)) of
                  None \<Rightarrow> Fault
                | Some p' \<Rightarrow> Returns (SUCCEED, p', w))
             else
               (case ptr_store num_errs 0 of
                  None \<Rightarrow> Fault
                | Some p' \<Rightarrow> Returns (SUCCEED, p', w)))
          else Returns (SUCCEED, num_errs, w))"

section \<open>The wait engine\<close>

text \<open>
  Modelled from the spec: \<open>H5ES__wait\<close> is not among the source files; this
  is the algorithm of section 4.4, step by step. The engine notes the clock at
  the start and then sweeps the active list until a stop condition holds.

  One sweep (step 2b) walks the records that were active when it began, in
  insertion order. \<open>kept\<close> are the records already visited and left in
  place, so that the active list is \<open>kept\<close> followed by the records still
  to visit. For each record the remaining budget is the timeout minus the time
  elapsed since the start, clamped at 0, and the poll is given a budget of at
  most that. IN_PROGRESS leaves the record in place; SUCCEED unlinks it and
  releases its token; FAIL and CANCEL set the status, move the record to the
  tail of the failed list and latch the error flag. An error stack from the
  runtime is a structural error: the walk ends there and the engine fails,
  with what the walk did so far left as it is.
\<close>

record 'rt wait_ctx =
  ctx_es :: H5ES_t
  ctx_rt :: 'rt
  ctx_polls :: "poll_event list"
  any_failed :: bool
  any_succeeded :: bool

definition remaining_budget :: "'rt async_runtime \<Rightarrow> nat \<Rightarrow> nat \<Rightarrow> 'rt \<Rightarrow> nat" where
  "remaining_budget E timeout_ns t_start rt = timeout_ns - (now_ns E rt - t_start)"

definition op_fail :: "H5ES_t \<Rightarrow> H5ES_event_t list \<Rightarrow> H5ES_event_t \<Rightarrow> H5ES_status \<Rightarrow> H5ES_t" where
  "op_fail es rest r st =
     es\<lparr>active := rest, failed := failed es @ [r\<lparr>status := st\<rparr>], err_occurred := True\<rparr>"

text \<open>
  Modelled from the spec: the visit of one record \<open>r\<close> (step 2b), with
  \<open>rs\<close> the records after it. It answers the runtime's error stack if the
  poll failed, the records kept so far, and the new context. The timeout
  sentinel MAX is the largest budget there is; the steps of the algorithm do
  not treat it apart.
\<close>

definition H5ES__wait_visit ::
  "'rt async_runtime \<Rightarrow> nat \<Rightarrow> nat \<Rightarrow> H5ES_event_t list \<Rightarrow> H5ES_event_t \<Rightarrow>
   H5ES_event_t list \<Rightarrow> 'rt wait_ctx \<Rightarrow>
   H5E_frame list option \<times> H5ES_event_t list \<times> 'rt wait_ctx" where
  "H5ES__wait_visit E timeout_ns t_start kept r rs c =
     (let remaining = remaining_budget E timeout_ns t_start (ctx_rt c);
          b = min (poll_budget E remaining) remaining;
          ans = fst (poll E (ctx_rt c) (token r) b);
          rt' = snd (poll E (ctx_rt c) (token r) b);
          c1 = c\<lparr>ctx_rt := rt',
                 ctx_polls := ctx_polls c @ [(token r, b, now_ns E (ctx_rt c), ans)]\<rparr>
      in case ans of
           Inl e \<Rightarrow> (Some e, kept, c1)
         | Inr H5ES_STATUS_IN_PROGRESS \<Rightarrow> (None, kept @ [r], c1)
         | Inr H5ES_STATUS_SUCCEED \<Rightarrow>
             (None, kept,
              c1\<lparr>ctx_es := (ctx_es c1)\<lparr>active := kept @ rs\<rparr>,
                   ctx_rt := release E rt' (token r),
                   any_succeeded := True\<rparr>)
         | Inr H5ES_STATUS_FAIL \<Rightarrow>
             (None, kept,
              c1\<lparr>ctx_es := op_fail (ctx_es c1) (kept @ rs) r H5ES_STATUS_FAIL,
                   any_failed := True\<rparr>)
         | Inr H5ES_STATUS_CANCEL \<Rightarrow>
             (None, kept,
              c1\<lparr>ctx_es := op_fail (ctx_es c1) (kept @ rs) r H5ES_STATUS_CANCEL,
                   any_failed := True\<rparr>))"

fun H5ES__wait_sweep ::
  "'rt async_runtime \<Rightarrow> nat \<Rightarrow> nat \<Rightarrow> H5ES_event_t list \<Rightarrow> H5ES_event_t list \<Rightarrow>
   'rt wait_ctx \<Rightarrow> H5E_frame list option \<times> 'rt wait_ctx" where
  "H5ES__wait_sweep E timeout_ns t_start kept [] c = (None, c)"
| "H5ES__wait_sweep E timeout_ns t_start kept (r # rs) c =
     (case H5ES__wait_visit E timeout_ns t_start kept r rs c of
        (Some e, kept', c') \<Rightarrow> (Some e, c')
      | (None, kept', c') \<Rightarrow> H5ES__wait_sweep E timeout_ns t_start kept' rs c')"

text \<open>
  Modelled from the spec: the loop (step 2): sweep; stop if a record failed
  (c), if the active list is empty (d), or if the budget is used up and the
  sweep saw no SUCCEED either (e); otherwise sweep again (f). A timeout of 0
  is apart: "A value of 0 means poll once, do not block" (section 4.4), the
  duration of \<open>wait(e, 0)\<close> is one poll for each active record (section 8,
  property 5), and the source says of \<open>H5ESwait\<close> that once the timeout
  is 0 "any remaining operations are only checked for completion, not waited
  on". So a call with timeout 0 stops after its first sweep; steps e and f
  are for a call that was given a budget. The loop state is the event set,
  the runtime and the log. The loop need not end: with budget left and a
  runtime that keeps answering IN_PROGRESS without the clock advancing it
  sweeps forever, which is the value \<open>None\<close>.
\<close>

type_synonym 'rt wait_state = "H5ES_t \<times> 'rt \<times> poll_event list list"

partial_function (option) H5ES__wait_loop ::
  "'rt async_runtime \<Rightarrow> nat \<Rightarrow> nat \<Rightarrow> 'rt wait_state \<Rightarrow>
   (H5E_frame list option \<times> bool \<times> 'rt wait_state) option" where
  "H5ES__wait_loop E timeout_ns t_start s =
     (let es = fst s; rt = fst (snd s); lg = snd (snd s);
          res = H5ES__wait_sweep E timeout_ns t_start [] (active es)
                  \<lparr>ctx_es = es, ctx_rt = rt, ctx_polls = [],
                   any_failed = False, any_succeeded = False\<rparr>;
          c = snd res;
          s' = (ctx_es c, ctx_rt c, lg @ [ctx_polls c])
      in if fst res \<noteq> None then Some (fst res, any_failed c, s')
         else if any_failed c then Some (None, True, s')
         else if active (ctx_es c) = [] then Some (None, False, s')
         else if timeout_ns = 0 then Some (None, False, s')
         else if remaining_budget E timeout_ns t_start (ctx_rt c) = 0 \<and> \<not> any_succeeded c
           then Some (None, False, s')
         else H5ES__wait_loop E timeout_ns t_start s')"

declare H5ES__wait_loop.simps [code]

text \<open>
  Modelled from the spec: on stop (step 3) the engine reports the length of
  the active list and whether an operation failed: a failure seen in this
  call, or the error flag with a failed record still held. On a structural
  error it reports nothing.
\<close>

definition H5ES__wait ::
  "'rt async_runtime \<Rightarrow> 'rt wait_state \<Rightarrow> nat \<Rightarrow>
   ((H5E_frame list + nat \<times> bool) \<times> 'rt wait_state) option" where
  "H5ES__wait E s timeout_ns =
     (case H5ES__wait_loop E timeout_ns (now_ns E (fst (snd s))) s of
        None \<Rightarrow> None
      | Some (Some e, f, s') \<Rightarrow> Some (Inl e, s')
      | Some (None, f, s') \<Rightarrow>
          Some (Inr (H5ES__list_count (active (fst s')),
                     f \<or> (err_occurred (fst s') \<and> H5ES__list_count (failed (fst s')) > 0)),
                s'))"

text \<open>
  \<open>H5ESwait\<close>, from the source: the identifier and the two out-pointers are
  checked first, then the engine runs and its answers are stored through the
  pointers. The timeout is a \<open>uint64_t\<close> in nanoseconds.
\<close>

definition H5ESwait ::
  "'rt async_runtime \<Rightarrow> 'rt world \<Rightarrow> hid_t \<Rightarrow> 64 word \<Rightarrow> nat ptr \<Rightarrow> bool ptr \<Rightarrow>
   (herr_t \<times> nat ptr \<times> bool ptr \<times> 'rt world) outcome" where
  "H5ESwait E w es_id timeout num_in_progress op_failed =
     (case H5I_object_verify (ids w) es_id H5I_EVENTSET of
        None \<Rightarrow> Returns (FAIL [(H5E_ARGS, H5E_BADTYPE)], num_in_progress, op_failed, w)
      | Some es \<Rightarrow>
          if num_in_progress = None then
            Returns (FAIL [(H5E_ARGS, H5E_BADVALUE)], num_in_progress, op_failed, w)
          else if op_failed = None then
            Returns (FAIL [(H5E_ARGS, H5E_BADVALUE)], num_in_progress, op_failed, w)
          else
            (case H5ES__wait E (es, runtime w, poll_log w) (unat timeout) of
               None \<Rightarrow> Diverges
             | Some (Inl e, es', rt', lg') \<Rightarrow>
                 Returns (FAIL ((H5E_EVENTSET, H5E_CANTWAIT) # e), num_in_progress, op_failed,
                          w\<lparr>ids := H5I_object_update (ids w) es_id es',
                            runtime := rt', poll_log := lg'\<rparr>)
             | Some (Inr (n, f), es', rt', lg') \<Rightarrow>
                 (case ptr_store num_in_progress n of
                    None \<Rightarrow> Fault
                  | Some nip' \<Rightarrow>
                      (case ptr_store op_failed f of
                         None \<Rightarrow> Fault
                       | Some opf' \<Rightarrow>
                           Returns (SUCCEED, nip', opf',
                                    w\<lparr>ids := H5I_object_update (ids w) es_id es',
                                      runtime := rt', poll_log := lg'\<rparr>)))))"

section \<open>The error-info extractor\<close>

text \<open>
  Modelled from the spec: the layout of an error-info entry (section 6) with
  the diagnostic stack of section 4.5; the structure is declared in a header
  that is not among the source files.
\<close>

record H5ES_err_info_t =
  ei_api_name :: string
  ei_app_file :: string
  ei_app_func :: string
  ei_app_line :: "32 word"
  ei_app_version :: string
  ei_counter :: "64 word"
  ei_timestamp :: "64 word"
  ei_status :: H5ES_status
  ei_err_stack :: diag_stack

definition err_info_of :: "H5ES_event_t \<Rightarrow> diag_stack \<Rightarrow> H5ES_err_info_t" where
  "err_info_of r d =
     \<lparr>ei_api_name = api_name r, ei_app_file = app_file r, ei_app_func = app_func r,
      ei_app_line = app_line r, ei_app_version = app_version r, ei_counter = counter r,
      ei_timestamp = timestamp r, ei_status = status r, ei_err_stack = d\<rparr>"

text \<open>
  Modelled from the spec: \<open>H5ES__get_err_info\<close> is not among the source
  files; this is section 4.5. The walk visits the failed list in insertion
  order and drains up to \<open>max\<close> records: it extracts the diagnostics of the
  record, unlinks the record and frees it, which releases its token. It
  answers the entries, the records left, and the runtime. When the runtime
  cannot deliver the diagnostics of a record the walk ends there with the
  runtime's error stack, the record still in the list.
\<close>

fun H5ES__get_err_info_walk ::
  "'rt async_runtime \<Rightarrow> nat \<Rightarrow> H5ES_event_t list \<Rightarrow> 'rt \<Rightarrow>
   H5E_frame list option \<times> H5ES_err_info_t list \<times> H5ES_event_t list \<times> 'rt" where
  "H5ES__get_err_info_walk E 0 rs rt = (None, [], rs, rt)"
| "H5ES__get_err_info_walk E (Suc n) [] rt = (None, [], [], rt)"
| "H5ES__get_err_info_walk E (Suc n) (r # rs) rt =
     (case snapshot_diagnostics E rt (token r) of
        (Inl e, rt') \<Rightarrow> (Some e, [], r # rs, rt')
      | (Inr d, rt') \<Rightarrow>
          (case H5ES__get_err_info_walk E n rs (release E rt' (token r)) of
             (err, infos, rest, rt'') \<Rightarrow> (err, err_info_of r d # infos, rest, rt'')))"

text \<open>
  Modelled from the spec: \<open>H5ES__get_err_info\<close> (section 4.5) drains by
  the walk above and clears the error flag when the number of records drained
  equals the number of failed records before the call, is positive, and no
  failed record remains.
\<close>

definition H5ES__get_err_info ::
  "'rt async_runtime \<Rightarrow> H5ES_t \<Rightarrow> 'rt \<Rightarrow> nat \<Rightarrow>
   (H5E_frame list + H5ES_err_info_t list \<times> nat) \<times> H5ES_t \<times> 'rt" where
  "H5ES__get_err_info E es rt max_info =
     (case H5ES__get_err_info_walk E max_info (failed es) rt of
        (err, infos, rest, rt') \<Rightarrow>
          (let failed_before = H5ES__list_count (failed es);
               cleared = length infos;
               es1 = es\<lparr>failed := rest\<rparr>;
               es2 = (if cleared = failed_before \<and> cleared > 0 \<and> H5ES__list_count rest = 0
                      then es1\<lparr>err_occurred := False\<rparr> else es1)
           in case err of
                Some e \<Rightarrow> (Inl e, es2, rt')
              | None \<Rightarrow> (Inr (infos, cleared), es2, rt')))"

text \<open>
  \<open>H5ESget_err_info\<close>, from the source: four argument checks in this order,
  then the engine; its entries go to the caller's array and the number of
  records drained to \<open>num_cleared\<close>.
\<close>

definition H5ESget_err_info ::
  "'rt async_runtime \<Rightarrow> 'rt world \<Rightarrow> hid_t \<Rightarrow> nat \<Rightarrow> H5ES_err_info_t list ptr \<Rightarrow> nat ptr \<Rightarrow>
   (herr_t \<times> H5ES_err_info_t list ptr \<times> nat ptr \<times> 'rt world) outcome" where
  "H5ESget_err_info E w es_id num_err_info err_info num_cleared =
     (case H5I_object_verify (ids w) es_id H5I_EVENTSET of
        None \<Rightarrow> Returns (FAIL [(H5E_ARGS, H5E_BADTYPE)], err_info, num_cleared, w)
      | Some es \<Rightarrow>
          if num_err_info = 0 then
            Returns (FAIL [(H5E_ARGS, H5E_BADVALUE)], err_info, num_cleared, w)
          else if err_info = None then
            Returns (FAIL [(H5E_ARGS, H5E_BADVALUE)], err_info, num_cleared, w)
          else if num_cleared = None then
            Returns (FAIL [(H5E_ARGS, H5E_BADVALUE)], err_info, num_cleared, w)
          else
            (case H5ES__get_err_info E es (runtime w) num_err_info of
               (Inl e, es', rt') \<Rightarrow>
                 Returns (FAIL ((H5E_EVENTSET, H5E_CANTGET) # e), err_info, num_cleared,
                          w\<lparr>ids := H5I_object_update (ids w) es_id es', runtime := rt'\<rparr>)
             | (Inr (infos, cleared), es', rt') \<Rightarrow>
                 (case array_store err_info infos of
                    None \<Rightarrow> Fault
                  | Some buf' \<Rightarrow>
                      (case ptr_store num_cleared cleared of
                         None \<Rightarrow> Fault
                       | Some nc' \<Rightarrow>
                           Returns (SUCCEED, buf', nc',
                                    w\<lparr>ids := H5I_object_update (ids w) es_id es',
                                      runtime := rt'\<rparr>)))))"

section \<open>Closing an event set\<close>

text \<open>
  Modelled from the spec: \<open>H5ES__close\<close>, the routine that frees an event
  set, is not among the source files; this is \<open>close(es)\<close> of section 4.3:
  it "refuses (fails with BUSY) if active is non-empty; otherwise releases the
  failed list and frees the set". Freeing a record releases its token.
\<close>

definition H5ES__close :: "'rt async_runtime \<Rightarrow> H5ES_t \<Rightarrow> 'rt \<Rightarrow> (H5E_frame list + unit) \<times> 'rt" where
  "H5ES__close E es rt =
     (if H5ES__list_count (active es) > 0 then (Inl [(H5E_EVENTSET, BUSY)], rt)
      else (Inr (), foldl (release E) rt (map token (failed es))))"

text \<open>
  Modelled from the spec: \<open>H5I_dec_app_ref\<close> belongs to the registry, which
  the specification leaves outside the core, and is not among the source
  files. After its type check \<open>H5ESclose\<close> does nothing but call it, and
  \<open>H5ESclose\<close> is the specification's \<open>close(es)\<close>; so this routine is
  what hands the event set to \<open>H5ES__close\<close>. The source says where it
  calls it: "Decrement the counter on the object. It will be freed if the
  count reaches zero." An identifier holds the one reference it was
  registered with (no operation of the source file or of the specification
  adds a reference), so the decrement reaches zero: the object is freed and
  the identifier leaves the registry. When freeing is refused the call fails
  and the state is as before. It answers the new count. (An identifier that
  is not registered cannot be decremented; \<open>H5ESclose\<close> does not get
  there, it checks the type first.)
\<close>

definition H5I_dec_app_ref ::
  "'rt async_runtime \<Rightarrow> 'rt world \<Rightarrow> hid_t \<Rightarrow> (H5E_frame list + nat) \<times> 'rt world" where
  "H5I_dec_app_ref E w hid =
     (case ids w hid of
        None \<Rightarrow> (Inl [], w)
      | Some info \<Rightarrow>
          (case object info of
             Other_object n \<Rightarrow> (Inr 0, w\<lparr>ids := (ids w)(hid := None)\<rparr>)
           | ES_object es \<Rightarrow>
               (case H5ES__close E es (runtime w) of
                  (Inl e, rt') \<Rightarrow> (Inl e, w)
                | (Inr u, rt') \<Rightarrow>
                    (Inr 0, w\<lparr>ids := (ids w)(hid := None), runtime := rt'\<rparr>))))"

text \<open>
  \<open>H5ESclose\<close>, from the source: the identifier must have the type
  \<open>H5I_EVENTSET\<close>; then its reference is given up.
\<close>

definition H5ESclose :: "'rt async_runtime \<Rightarrow> 'rt world \<Rightarrow> hid_t \<Rightarrow> (herr_t \<times> 'rt world) outcome" where
  "H5ESclose E w es_id =
     (if H5I_EVENTSET \<noteq> H5I_get_type (ids w) es_id then
        Returns (FAIL [(H5E_ARGS, H5E_BADTYPE)], w)
      else
        (case H5I_dec_app_ref E w es_id of
           (Inl e, w') \<Rightarrow> Returns (FAIL ((H5E_EVENTSET, H5E_CANTDEC) # e), w')
         | (Inr c, w') \<Rightarrow> Returns (SUCCEED, w')))"

section \<open>Appending an operation\<close>

text \<open>
  Modelled from the spec: the routine that inserts an operation into an event
  set is not among the source files; this is \<open>append(es, rec)\<close> of section
  4.3: it "assigns rec.counter := es.op_counter; increments op_counter;
  appends to active". The counter is a \<open>uint64_t\<close> and wraps.
\<close>

definition es_append :: "H5ES_t \<Rightarrow> H5ES_event_t \<Rightarrow> H5ES_t" where
  "es_append es r =
     es\<lparr>active := active es @ [r\<lparr>counter := op_counter es\<rparr>],
        op_counter := op_counter es + 1\<rparr>"

section \<open>Notions used in the statements\<close>

text \<open>The value a call returns, if it returns.\<close>

definition returned :: "'a outcome \<Rightarrow> 'a option" where
  "returned x = (case x of Returns v \<Rightarrow> Some v | Fault \<Rightarrow> None | Diverges \<Rightarrow> None)"

text \<open>
  A logged poll: its token, its budget, the clock when it was issued, and its
  answer. A poll is within the budget of a
  call with timeout \<open>timeout_ns\<close> that started at \<open>t_start\<close> when its
  budget is at most the timeout less the time that had elapsed when it was
  issued.
\<close>

definition budget_of :: "poll_event \<Rightarrow> nat" where
  "budget_of ev = fst (snd ev)"

definition poll_token :: "poll_event \<Rightarrow> token" where
  "poll_token ev = fst ev"

definition issued_at :: "poll_event \<Rightarrow> nat" where
  "issued_at ev = fst (snd (snd ev))"

definition poll_answer :: "poll_event \<Rightarrow> H5E_frame list + H5ES_status" where
  "poll_answer ev = snd (snd (snd ev))"

definition within_budget :: "nat \<Rightarrow> nat \<Rightarrow> poll_event \<Rightarrow> bool" where
  "within_budget timeout_ns t_start ev =
     (budget_of ev \<le> timeout_ns - (issued_at ev - t_start))"

text \<open>
  What the sweeps of one run of the engine log: at least one sweep, every
  poll within budget, and a structural error among the answers exactly when
  the engine fails with it.
\<close>

definition wait_log_ok ::
  "nat \<Rightarrow> nat \<Rightarrow> H5E_frame list option \<Rightarrow> poll_event list list \<Rightarrow> bool" where
  "wait_log_ok timeout_ns t_start err new =
     (new \<noteq> [] \<and> (\<forall>ev\<in>set (concat new). within_budget timeout_ns t_start ev)
      \<and> (case err of
            None \<Rightarrow> (\<forall>ev\<in>set (concat new). \<exists>st. poll_answer ev = Inr st)
          | Some e \<Rightarrow> (\<exists>ev\<in>set (concat new). poll_answer ev = Inl e)))"

definition wait_loop_post ::
  "nat \<Rightarrow> nat \<Rightarrow> 'rt wait_state \<Rightarrow> (H5E_frame list option \<times> bool \<times> 'rt wait_state) \<Rightarrow> bool" where
  "wait_loop_post timeout_ns t_start s y =
     (\<exists>new. snd (snd (snd (snd y))) = snd (snd s) @ new
            \<and> wait_log_ok timeout_ns t_start (fst y) new
            \<and> op_counter (fst (snd (snd y))) = op_counter (fst s))"

text \<open>
  A runtime in which time passes: the clock is later after every poll than
  before it ("every syscall-level wait consumes real time from the budget",
  section 4.4), and releasing a token does not turn it back.
\<close>

definition clock_advances :: "'rt async_runtime \<Rightarrow> bool" where
  "clock_advances E =
     ((\<forall>rt tok b. now_ns E rt < now_ns E (snd (poll E rt tok b)))
      \<and> (\<forall>rt tok. now_ns E rt \<le> now_ns E (release E rt tok)))"

subsection \<open>A concrete runtime and concrete event sets\<close>

text \<open>
  A runtime whose answer depends on the token alone: token 0 stays in
  progress, 1 succeeds, 2 fails, 3 is cancelled, any other token makes the
  runtime report a structural error. A poll blocks for its whole budget; the
  state of the runtime is its clock. Diagnostics exist for tokens 2 and 3.
\<close>

definition demo_answer :: "token \<Rightarrow> H5E_frame list + H5ES_status" where
  "demo_answer tok =
     (if tok = 0 then Inr H5ES_STATUS_IN_PROGRESS
      else if tok = 1 then Inr H5ES_STATUS_SUCCEED
      else if tok = 2 then Inr H5ES_STATUS_FAIL
      else if tok = 3 then Inr H5ES_STATUS_CANCEL
      else Inl [(H5E_MAJOR_OTHER 0, H5E_MINOR_OTHER 0)])"

definition demo_runtime :: "nat async_runtime" where
  "demo_runtime =
     \<lparr>poll = (\<lambda>rt tok b. (demo_answer tok, rt + b)),
      now_ns = (\<lambda>rt. rt),
      snapshot_diagnostics =
        (\<lambda>rt tok. (if tok = 2 \<or> tok = 3 then Inr [''frame'']
                    else Inl [(H5E_MAJOR_OTHER 0, H5E_MINOR_OTHER 1)], rt)),
      release = (\<lambda>rt tok. rt),
      poll_budget = (\<lambda>remaining. remaining)\<rparr>"

text \<open>
  The same runtime with a poll that takes one nanosecond more than its
  budget, so that even a poll with budget 0 moves the clock.
\<close>

definition demo_ticking_runtime :: "nat async_runtime" where
  "demo_ticking_runtime =
     demo_runtime\<lparr>poll := (\<lambda>rt tok b. (demo_answer tok, rt + b + 1))\<rparr>"

definition demo_op :: "token \<Rightarrow> 64 word \<Rightarrow> H5ES_status \<Rightarrow> H5ES_event_t" where
  "demo_op tok n st =
     \<lparr>counter = n, api_name = ''H5Dwrite_async'', app_file = ''app.c'', app_func = ''main'',
      app_line = 42, app_version = ''1.0.0'', timestamp = 0, token = tok, status = st\<rparr>"

text \<open>
  A registry with the event set \<open>es\<close> under identifier 1 and an object of
  another type under identifier 2.
\<close>

definition demo_world :: "H5ES_t \<Rightarrow> nat world" where
  "demo_world es =
     \<lparr>ids = [1 \<mapsto> \<lparr>object = ES_object es\<rparr>, 2 \<mapsto> \<lparr>object = Other_object 0\<rparr>],
      runtime = 0, poll_log = []\<rparr>"

text \<open>Three failed records and nothing active; the flag is set.\<close>

definition es_three_failed :: H5ES_t where
  "es_three_failed =
     \<lparr>active = [],
      failed = [demo_op 2 0 H5ES_STATUS_FAIL, demo_op 3 1 H5ES_STATUS_CANCEL,
                demo_op 2 2 H5ES_STATUS_FAIL],
      op_counter = 3, err_occurred = True\<rparr>"

text \<open>Two active records: the first will succeed, the second stays in progress.\<close>

definition es_succeed_then_busy :: H5ES_t where
  "es_succeed_then_busy =
     \<lparr>active = [demo_op 1 0 H5ES_STATUS_IN_PROGRESS, demo_op 0 1 H5ES_STATUS_IN_PROGRESS],
      failed = [], op_counter = 2, err_occurred = False\<rparr>"

text \<open>Two active records that will both fail.\<close>

definition es_both_fail :: H5ES_t where
  "es_both_fail =
     \<lparr>active = [demo_op 2 0 H5ES_STATUS_IN_PROGRESS, demo_op 3 1 H5ES_STATUS_IN_PROGRESS],
      failed = [], op_counter = 2, err_occurred = False\<rparr>"

text \<open>One active record on which the runtime reports a structural error.\<close>

definition es_runtime_error :: H5ES_t where
  "es_runtime_error =
     \<lparr>active = [demo_op 4 0 H5ES_STATUS_IN_PROGRESS],
      failed = [], op_counter = 1, err_occurred = False\<rparr>"

text \<open>What is left of the three failed records after the first two are drained.\<close>

definition es_one_failed :: H5ES_t where
  "es_one_failed =
     \<lparr>active = [], failed = [demo_op 2 2 H5ES_STATUS_FAIL], op_counter = 3, err_occurred = True\<rparr>"

text \<open>An entry of the caller's array before the call.\<close>

definition blank_info :: H5ES_err_info_t where
  "blank_info = err_info_of (demo_op 0 0 H5ES_STATUS_IN_PROGRESS) []"

section \<open>Identifiers that are not event sets, and argument errors\<close>

lemma H5I_verify_iff_type:
  "(H5I_object_verify reg hid H5I_EVENTSET = None) = (H5I_get_type reg hid \<noteq> H5I_EVENTSET)"
  by (simp add: H5I_object_verify_def H5I_get_type_def split: option.splits H5I_object.splits)

lemma demo_world_verify [simp]:
  "H5I_object_verify (ids (demo_world es)) 1 H5I_EVENTSET = Some es"
  by (simp add: demo_world_def H5I_object_verify_def)

lemma demo_world_type [simp]:
  "H5I_get_type (ids (demo_world es)) 1 = H5I_EVENTSET"
  "H5I_get_type (ids (demo_world es)) 2 = H5I_OTHER 0"
  by (simp_all add: demo_world_def H5I_get_type_def)

text \<open>
  C8. Each of the seven entry points, given an identifier that is not an
  event set (not registered, or registered with another type), fails with the
  single frame \<open>(H5E_ARGS, H5E_BADTYPE)\<close>, the specification's BAD_HANDLE,
  and does nothing else: the caller's cells and the state of the library are
  as before.
\<close>

theorem bad_handle_fails_without_effect:
  assumes "H5I_get_type (ids w) es_id \<noteq> H5I_EVENTSET"
  shows "H5ESget_count w es_id count = Returns (FAIL [(H5E_ARGS, H5E_BADTYPE)], count, w)
       \<and> H5ESget_op_counter w es_id opc = Returns (FAIL [(H5E_ARGS, H5E_BADTYPE)], opc, w)
       \<and> H5ESwait E w es_id timeout nip opf
           = Returns (FAIL [(H5E_ARGS, H5E_BADTYPE)], nip, opf, w)
       \<and> H5ESget_err_status w es_id st = Returns (FAIL [(H5E_ARGS, H5E_BADTYPE)], st, w)
       \<and> H5ESget_err_count w es_id ne = Returns (FAIL [(H5E_ARGS, H5E_BADTYPE)], ne, w)
       \<and> H5ESget_err_info E w es_id n buf nc
           = Returns (FAIL [(H5E_ARGS, H5E_BADTYPE)], buf, nc, w)
       \<and> H5ESclose E w es_id = Returns (FAIL [(H5E_ARGS, H5E_BADTYPE)], w)"
proof -
  from assms have v: "H5I_object_verify (ids w) es_id H5I_EVENTSET = None"
    by (simp add: H5I_verify_iff_type)
  from assms have t: "H5I_EVENTSET \<noteq> H5I_get_type (ids w) es_id" by auto
  show ?thesis
    using v t
    by (simp add: H5ESget_count_def H5ESget_op_counter_def H5ESwait_def H5ESget_err_status_def
        H5ESget_err_count_def H5ESget_err_info_def H5ESclose_def)
qed

theorem bad_handle_fails_without_effect_witness:
  "H5I_get_type (ids (demo_world es_three_failed)) 2 \<noteq> H5I_EVENTSET
   \<and> H5ESget_count (demo_world es_three_failed) 2 (Some 5)
       = Returns (FAIL [(H5E_ARGS, H5E_BADTYPE)], Some 5, demo_world es_three_failed)
   \<and> H5ESwait demo_runtime (demo_world es_three_failed) 2 10 (Some 5) (Some False)
       = Returns (FAIL [(H5E_ARGS, H5E_BADTYPE)], Some 5, Some False,
                  demo_world es_three_failed)
   \<and> H5ESclose demo_runtime (demo_world es_three_failed) 2
       = Returns (FAIL [(H5E_ARGS, H5E_BADTYPE)], demo_world es_three_failed)"
proof -
  have h: "H5I_get_type (ids (demo_world es_three_failed)) 2 \<noteq> H5I_EVENTSET" by simp
  show ?thesis
    using h bad_handle_fails_without_effect [OF h, of "Some 5" None demo_runtime 10 "Some 5"
        "Some False" None None 1 None None]
    by simp
qed

text \<open>
  C9. \<open>H5ESwait\<close> checks its arguments before it runs the engine: when the
  identifier is not an event set, or \<open>num_in_progress\<close> or \<open>op_failed\<close>
  is NULL, it fails (BAD_HANDLE or BAD_VALUE) with the caller's cells and the
  whole state as before: no poll is logged, and the registry, hence the active
  list, the failed list, the counter and the error flag of the set, is the
  same.
\<close>

theorem H5ESwait_argument_errors:
  assumes "H5I_get_type (ids w) es_id \<noteq> H5I_EVENTSET \<or> nip = None \<or> opf = None"
  shows "\<exists>e. H5ESwait E w es_id timeout nip opf = Returns (FAIL e, nip, opf, w)
           \<and> (e = [(H5E_ARGS, H5E_BADTYPE)] \<or> e = [(H5E_ARGS, H5E_BADVALUE)])"
  using assms
  by (auto simp: H5ESwait_def H5I_verify_iff_type[symmetric] split: option.splits)

theorem H5ESwait_argument_errors_witness:
  "H5ESwait demo_runtime (demo_world es_both_fail) 1 10 (Some 5) None
     = Returns (FAIL [(H5E_ARGS, H5E_BADVALUE)], Some 5, None, demo_world es_both_fail)"
  using H5ESwait_argument_errors [of "demo_world es_both_fail" 1 "Some 5" None demo_runtime 10]
  by (auto simp: H5ESwait_def)

text \<open>
  C4. \<open>H5ESget_err_info\<close> called with a zero-length array, a NULL array
  pointer or a NULL \<open>num_cleared\<close> pointer fails, and nothing is drained:
  the caller's cells and the whole state are as before. On an event set the
  failure is the single frame \<open>(H5E_ARGS, H5E_BADVALUE)\<close>, the
  specification's BAD_VALUE. (When the identifier is not an event set either,
  that is reported instead, since the identifier is checked first.)
\<close>

theorem H5ESget_err_info_usage_errors:
  assumes "num_err_info = 0 \<or> err_info = None \<or> num_cleared = None"
  shows "\<exists>e. H5ESget_err_info E w es_id num_err_info err_info num_cleared
                = Returns (FAIL e, err_info, num_cleared, w)
             \<and> (H5I_get_type (ids w) es_id = H5I_EVENTSET \<longrightarrow> e = [(H5E_ARGS, H5E_BADVALUE)])"
  using assms
  by (auto simp: H5ESget_err_info_def H5I_verify_iff_type split: option.splits)

theorem H5ESget_err_info_usage_errors_witness:
  "H5I_get_type (ids (demo_world es_three_failed)) 1 = H5I_EVENTSET
   \<and> H5ESget_err_info demo_runtime (demo_world es_three_failed) 1 0 (Some []) (Some 9)
       = Returns (FAIL [(H5E_ARGS, H5E_BADVALUE)], Some [], Some 9, demo_world es_three_failed)"
  using H5ESget_err_info_usage_errors [of 0 "Some []" "Some 9" demo_runtime
      "demo_world es_three_failed" 1]
  by auto

section \<open>The read-only entry points: results\<close>

text \<open>
  C5. On an event set, \<open>H5ESget_err_count\<close> stores the length of the failed
  list when the error flag is set and 0 when it is clear, and returns
  \<open>SUCCEED\<close>. It does not wait or poll: the runtime and the log of polls,
  like the rest of the state, are as before.
\<close>

theorem H5ESget_err_count_value:
  assumes "H5I_object_verify (ids w) es_id H5I_EVENTSET = Some es"
  shows "H5ESget_err_count w es_id (Some old) =
           Returns (SUCCEED, Some (if err_occurred es then length (failed es) else 0), w)"
  using assms by (simp add: H5ESget_err_count_def ptr_store_def H5ES__list_count_def)

theorem H5ESget_err_count_value_witness:
  "H5I_object_verify (ids (demo_world es_three_failed)) 1 H5I_EVENTSET = Some es_three_failed
   \<and> H5ESget_err_count (demo_world es_three_failed) 1 (Some 0)
       = Returns (SUCCEED, Some 3, demo_world es_three_failed)
   \<and> H5ESget_err_count (demo_world es_both_fail) 1 (Some 7)
       = Returns (SUCCEED, Some 0, demo_world es_both_fail)"
  using H5ESget_err_count_value [of "demo_world es_three_failed" 1 es_three_failed 0]
    H5ESget_err_count_value [of "demo_world es_both_fail" 1 es_both_fail 7]
  by (simp add: es_three_failed_def es_both_fail_def)

text \<open>
  C10. For \<open>H5ESget_count\<close>, \<open>H5ESget_op_counter\<close>, \<open>H5ESget_err_status\<close>
  and \<open>H5ESget_err_count\<close> a NULL out-pointer is not an error: on an event
  set each returns \<open>SUCCEED\<close>, stores nothing and changes nothing. The call
  returns, so it performs no invalid memory access: the store through the
  pointer is never reached.
\<close>

theorem accessors_accept_null:
  assumes "H5I_object_verify (ids w) es_id H5I_EVENTSET = Some es"
  shows "H5ESget_count w es_id None = Returns (SUCCEED, None, w)
       \<and> H5ESget_op_counter w es_id None = Returns (SUCCEED, None, w)
       \<and> H5ESget_err_status w es_id None = Returns (SUCCEED, None, w)
       \<and> H5ESget_err_count w es_id None = Returns (SUCCEED, None, w)"
  using assms
  by (simp add: H5ESget_count_def H5ESget_op_counter_def H5ESget_err_status_def
      H5ESget_err_count_def)

theorem accessors_accept_null_witness:
  "H5I_object_verify (ids (demo_world es_three_failed)) 1 H5I_EVENTSET = Some es_three_failed
   \<and> H5ESget_count (demo_world es_three_failed) 1 None
       = Returns (SUCCEED, None, demo_world es_three_failed)
   \<and> H5ESget_err_count (demo_world es_three_failed) 1 None
       = Returns (SUCCEED, None, demo_world es_three_failed)"
  using accessors_accept_null [of "demo_world es_three_failed" 1 es_three_failed]
  by simp

section \<open>The wait engine: what a run logs and when it fails\<close>

lemma visit_polls:
  assumes "H5ES__wait_visit E tmo t0 kept r rs c = (err, kept', c')"
  shows "\<exists>ev. ctx_polls c' = ctx_polls c @ [ev] \<and> within_budget tmo t0 ev
           \<and> (case err of None \<Rightarrow> (\<exists>st. poll_answer ev = Inr st) | Some e \<Rightarrow> poll_answer ev = Inl e)"
  using assms
  by (auto simp: H5ES__wait_visit_def Let_def within_budget_def budget_of_def issued_at_def poll_answer_def
      remaining_budget_def split: sum.splits H5ES_status.splits)

lemma visit_active:
  assumes "H5ES__wait_visit E tmo t0 kept r rs c = (None, kept', c')"
    and "active (ctx_es c) = kept @ r # rs"
  shows "active (ctx_es c') = kept' @ rs
       \<and> ((kept' = kept @ [r] \<and> any_succeeded c' = any_succeeded c) \<or> kept' = kept)"
  using assms
  by (auto simp: H5ES__wait_visit_def Let_def op_fail_def split: sum.splits H5ES_status.splits)

lemma visit_op_counter:
  assumes "H5ES__wait_visit E tmo t0 kept r rs c = (err, kept', c')"
  shows "op_counter (ctx_es c') = op_counter (ctx_es c)"
  using assms
  by (auto simp: H5ES__wait_visit_def Let_def op_fail_def split: sum.splits H5ES_status.splits)

lemma sweep_polls:
  "\<exists>new. ctx_polls (snd (H5ES__wait_sweep E tmo t0 kept rs c)) = ctx_polls c @ new
      \<and> (\<forall>ev\<in>set new. within_budget tmo t0 ev)
      \<and> (case fst (H5ES__wait_sweep E tmo t0 kept rs c) of
            None \<Rightarrow> (\<forall>ev\<in>set new. \<exists>st. poll_answer ev = Inr st)
          | Some e \<Rightarrow> (\<exists>ev\<in>set new. poll_answer ev = Inl e))"
proof (induction rs arbitrary: kept c)
  case Nil
  then show ?case by simp
next
  case (Cons r rs)
  obtain err kept' c' where v: "H5ES__wait_visit E tmo t0 kept r rs c = (err, kept', c')"
    by (metis prod_cases3)
  from visit_polls[OF v] obtain ev where
    ev: "ctx_polls c' = ctx_polls c @ [ev]" "within_budget tmo t0 ev"
      "case err of None \<Rightarrow> (\<exists>st. poll_answer ev = Inr st) | Some e \<Rightarrow> poll_answer ev = Inl e"
    by blast
  show ?case
  proof (cases err)
    case (Some e)
    then show ?thesis using v ev by simp
  next
    case None
    from Cons.IH[of kept' c'] obtain new where
      n: "ctx_polls (snd (H5ES__wait_sweep E tmo t0 kept' rs c')) = ctx_polls c' @ new"
         "\<forall>ev\<in>set new. within_budget tmo t0 ev"
         "case fst (H5ES__wait_sweep E tmo t0 kept' rs c') of
            None \<Rightarrow> (\<forall>ev\<in>set new. \<exists>st. poll_answer ev = Inr st)
          | Some e \<Rightarrow> (\<exists>ev\<in>set new. poll_answer ev = Inl e)" by blast
    have eq: "H5ES__wait_sweep E tmo t0 kept (r # rs) c = H5ES__wait_sweep E tmo t0 kept' rs c'"
      using v None by simp
    show ?thesis
      unfolding eq
      apply (rule exI[of _ "ev # new"])
      using n ev None by (auto split: option.splits)
  qed
qed

lemma sweep_active:
  assumes "H5ES__wait_sweep E tmo t0 kept rs c = (None, c')"
    and "active (ctx_es c) = kept @ rs"
  shows "length (active (ctx_es c')) \<le> length kept + length rs
       \<and> (any_succeeded c' \<and> \<not> any_succeeded c \<longrightarrow>
            length (active (ctx_es c')) < length kept + length rs)"
  using assms
proof (induction rs arbitrary: kept c)
  case Nil
  then show ?case by simp
next
  case (Cons r rs)
  obtain err kept' c1 where v: "H5ES__wait_visit E tmo t0 kept r rs c = (err, kept', c1)"
    by (metis prod_cases3)
  from Cons.prems(1) v have err: "err = None" by (cases err) auto
  from Cons.prems(1) v err have sw: "H5ES__wait_sweep E tmo t0 kept' rs c1 = (None, c')" by simp
  from visit_active[OF v[unfolded err] Cons.prems(2)] have
    a: "active (ctx_es c1) = kept' @ rs"
    and k: "(kept' = kept @ [r] \<and> any_succeeded c1 = any_succeeded c) \<or> kept' = kept"
    by auto
  from Cons.IH[OF sw a] k show ?case by auto
qed

lemma sweep_op_counter:
  "op_counter (ctx_es (snd (H5ES__wait_sweep E tmo t0 kept rs c))) = op_counter (ctx_es c)"
proof (induction rs arbitrary: kept c)
  case Nil
  then show ?case by simp
next
  case (Cons r rs)
  obtain err kept' c1 where v: "H5ES__wait_visit E tmo t0 kept r rs c = (err, kept', c1)"
    by (metis prod_cases3)
  show ?case using v visit_op_counter[OF v] Cons.IH[of kept' c1] by (cases err) auto
qed


lemma wait_log_ok_single:
  assumes "\<forall>ev\<in>set p. within_budget tmo t0 ev"
    and "case err of None \<Rightarrow> (\<forall>ev\<in>set p. \<exists>st. poll_answer ev = Inr st)
                   | Some e \<Rightarrow> (\<exists>ev\<in>set p. poll_answer ev = Inl e)"
  shows "wait_log_ok tmo t0 err [p]"
  using assms by (simp add: wait_log_ok_def split: option.splits)

lemma wait_log_ok_cons:
  assumes "\<forall>ev\<in>set p. within_budget tmo t0 ev"
    and "\<forall>ev\<in>set p. \<exists>st. poll_answer ev = Inr st"
    and "wait_log_ok tmo t0 err new"
  shows "wait_log_ok tmo t0 err (p # new)"
  using assms by (auto simp: wait_log_ok_def split: option.splits)

lemma sweep_start:
  fixes E tmo t0 es rt
  defines "res \<equiv> H5ES__wait_sweep E tmo t0 [] (active es)
                  \<lparr>ctx_es = es, ctx_rt = rt, ctx_polls = [],
                   any_failed = False, any_succeeded = False\<rparr>"
  shows "(\<forall>ev\<in>set (ctx_polls (snd res)). within_budget tmo t0 ev)
       \<and> (case fst res of
            None \<Rightarrow> (\<forall>ev\<in>set (ctx_polls (snd res)). \<exists>st. poll_answer ev = Inr st)
          | Some e \<Rightarrow> (\<exists>ev\<in>set (ctx_polls (snd res)). poll_answer ev = Inl e))
       \<and> op_counter (ctx_es (snd res)) = op_counter es
       \<and> (fst res = None \<longrightarrow> length (active (ctx_es (snd res))) \<le> length (active es)
            \<and> (any_succeeded (snd res) \<longrightarrow> length (active (ctx_es (snd res))) < length (active es)))"
proof -
  let ?c = "\<lparr>ctx_es = es, ctx_rt = rt, ctx_polls = [],
                   any_failed = False, any_succeeded = False\<rparr>"
  from sweep_polls[of E tmo t0 "[]" "active es" ?c]
  have p: "(\<forall>ev\<in>set (ctx_polls (snd res)). within_budget tmo t0 ev)
       \<and> (case fst res of
            None \<Rightarrow> (\<forall>ev\<in>set (ctx_polls (snd res)). \<exists>st. poll_answer ev = Inr st)
          | Some e \<Rightarrow> (\<exists>ev\<in>set (ctx_polls (snd res)). poll_answer ev = Inl e))"
    unfolding res_def by auto
  have o: "op_counter (ctx_es (snd res)) = op_counter es"
    unfolding res_def using sweep_op_counter[of E tmo t0 "[]" "active es" ?c] by simp
  have a: "fst res = None \<longrightarrow> length (active (ctx_es (snd res))) \<le> length (active es)
            \<and> (any_succeeded (snd res) \<longrightarrow> length (active (ctx_es (snd res))) < length (active es))"
  proof
    assume "fst res = None"
    then have "H5ES__wait_sweep E tmo t0 [] (active es) ?c = (None, snd res)"
      unfolding res_def by (metis prod.collapse)
    from sweep_active[OF this] show "length (active (ctx_es (snd res))) \<le> length (active es)
            \<and> (any_succeeded (snd res) \<longrightarrow> length (active (ctx_es (snd res))) < length (active es))"
      by simp
  qed
  from p o a show ?thesis by blast
qed

lemma wait_loop_partial:
  fixes E :: "'rt async_runtime"
  assumes "H5ES__wait_loop E tmo t0 s = Some y"
  shows "wait_loop_post tmo t0 s y"
proof (rule H5ES__wait_loop.raw_induct[where P = "\<lambda>E tmo t0 s y. wait_loop_post tmo t0 s y", OF _ assms])
  fix loop :: "'rt async_runtime \<Rightarrow> nat \<Rightarrow> nat \<Rightarrow> 'rt wait_state \<Rightarrow>
      (H5E_frame list option \<times> bool \<times> 'rt wait_state) option"
  fix E :: "'rt async_runtime" and tmo t0 :: nat and s :: "'rt wait_state"
    and y :: "H5E_frame list option \<times> bool \<times> 'rt wait_state"
  assume IH: "\<And>E tmo t0 s y. loop E tmo t0 s = Some y \<Longrightarrow> wait_loop_post tmo t0 s y"
  let ?res = "H5ES__wait_sweep E tmo t0 [] (active (fst s))
                  \<lparr>ctx_es = fst s, ctx_rt = fst (snd s), ctx_polls = [],
                   any_failed = False, any_succeeded = False\<rparr>"
  let ?c = "snd ?res"
  let ?s' = "(ctx_es ?c, ctx_rt ?c, snd (snd s) @ [ctx_polls ?c])"
  assume body: "(let es = fst s; rt = fst (snd s); lg = snd (snd s);
          res = H5ES__wait_sweep E tmo t0 [] (active es)
                  \<lparr>ctx_es = es, ctx_rt = rt, ctx_polls = [],
                   any_failed = False, any_succeeded = False\<rparr>;
          c = snd res;
          s' = (ctx_es c, ctx_rt c, lg @ [ctx_polls c])
      in if fst res \<noteq> None then Some (fst res, any_failed c, s')
         else if any_failed c then Some (None, True, s')
         else if active (ctx_es c) = [] then Some (None, False, s')
         else if tmo = 0 then Some (None, False, s')
         else if remaining_budget E tmo t0 (ctx_rt c) = 0 \<and> \<not> any_succeeded c
           then Some (None, False, s')
         else loop E tmo t0 s') = Some y"
  note st = sweep_start[of E tmo t0 "fst s" "fst (snd s)"]
  show "wait_loop_post tmo t0 s y"
  proof (cases "fst ?res \<noteq> None \<or> any_failed ?c \<or> active (ctx_es ?c) = [] \<or> tmo = 0
        \<or> (remaining_budget E tmo t0 (ctx_rt ?c) = 0 \<and> \<not> any_succeeded ?c)")
    case True
    with body have y: "snd (snd y) = ?s'" and fy: "fst y = fst ?res"
      by (auto simp: Let_def split: if_splits)
    have "wait_log_ok tmo t0 (fst ?res) [ctx_polls ?c]"
      by (rule wait_log_ok_single) (use st in auto)
    then show ?thesis unfolding wait_loop_post_def using y fy st by simp
  next
    case False
    with body have rec: "loop E tmo t0 ?s' = Some y"
      by (simp add: Let_def split: if_splits)
    from False have none: "fst ?res = None" by simp
    from IH[OF rec] obtain new where
      n: "snd (snd (snd (snd y))) = snd (snd ?s') @ new" "wait_log_ok tmo t0 (fst y) new"
         "op_counter (fst (snd (snd y))) = op_counter (fst ?s')"
      unfolding wait_loop_post_def by blast
    have "wait_log_ok tmo t0 (fst y) (ctx_polls ?c # new)"
      by (rule wait_log_ok_cons) (use st none n in auto)
    then show ?thesis unfolding wait_loop_post_def using n st by simp
  qed
qed

lemma visit_fail:
  assumes "\<forall>b. fst (poll E (ctx_rt c) (token r) b) = Inr H5ES_STATUS_FAIL
         \<or> fst (poll E (ctx_rt c) (token r) b) = Inr H5ES_STATUS_CANCEL"
  shows "\<exists>c'. H5ES__wait_visit E tmo t0 kept r rs c = (None, kept, c')
           \<and> active (ctx_es c') = kept @ rs
           \<and> any_failed c'
           \<and> err_occurred (ctx_es c')
           \<and> length (failed (ctx_es c')) = Suc (length (failed (ctx_es c)))"
proof -
  let ?b = "min (poll_budget E (remaining_budget E tmo t0 (ctx_rt c)))
                 (remaining_budget E tmo t0 (ctx_rt c))"
  from assms have "fst (poll E (ctx_rt c) (token r) ?b) = Inr H5ES_STATUS_FAIL
         \<or> fst (poll E (ctx_rt c) (token r) ?b) = Inr H5ES_STATUS_CANCEL" by blast
  then show ?thesis
    by (auto simp: H5ES__wait_visit_def Let_def op_fail_def)
qed

lemma sweep_all_fail:
  assumes "\<forall>rt b. \<forall>r\<in>set rs. fst (poll E rt (token r) b) = Inr H5ES_STATUS_FAIL
              \<or> fst (poll E rt (token r) b) = Inr H5ES_STATUS_CANCEL"
    and "active (ctx_es c) = kept @ rs"
  shows "\<exists>c'. H5ES__wait_sweep E tmo t0 kept rs c = (None, c')
           \<and> active (ctx_es c') = kept
           \<and> any_failed c' = (any_failed c \<or> rs \<noteq> [])
           \<and> err_occurred (ctx_es c') = (err_occurred (ctx_es c) \<or> rs \<noteq> [])
           \<and> length (failed (ctx_es c')) = length (failed (ctx_es c)) + length rs"
  using assms
proof (induction rs arbitrary: c)
  case Nil
  then show ?case by simp
next
  case (Cons r rs)
  from Cons.prems(1) have "\<forall>b. fst (poll E (ctx_rt c) (token r) b) = Inr H5ES_STATUS_FAIL
         \<or> fst (poll E (ctx_rt c) (token r) b) = Inr H5ES_STATUS_CANCEL" by simp
  from visit_fail[OF this, of tmo t0 kept rs] obtain c1 where
    v: "H5ES__wait_visit E tmo t0 kept r rs c = (None, kept, c1)"
    and c1: "active (ctx_es c1) = kept @ rs" "any_failed c1" "err_occurred (ctx_es c1)"
      "length (failed (ctx_es c1)) = Suc (length (failed (ctx_es c)))" by blast
  from Cons.prems(1) have all: "\<forall>rt b. \<forall>r\<in>set rs. fst (poll E rt (token r) b) = Inr H5ES_STATUS_FAIL
              \<or> fst (poll E rt (token r) b) = Inr H5ES_STATUS_CANCEL" by simp
  from Cons.IH[OF all c1(1)] obtain c' where
    c': "H5ES__wait_sweep E tmo t0 kept rs c1 = (None, c')" "active (ctx_es c') = kept"
      "any_failed c' = (any_failed c1 \<or> rs \<noteq> [])"
      "err_occurred (ctx_es c') = (err_occurred (ctx_es c1) \<or> rs \<noteq> [])"
      "length (failed (ctx_es c')) = length (failed (ctx_es c1)) + length rs" by blast
  show ?case using v c1 c' by simp
qed

lemma wait_all_fail:
  assumes "\<forall>rt b. \<forall>r\<in>set (active es). fst (poll E rt (token r) b) = Inr H5ES_STATUS_FAIL
              \<or> fst (poll E rt (token r) b) = Inr H5ES_STATUS_CANCEL"
  shows "\<exists>es' rt' lg'. H5ES__wait E (es, rt, lg) tmo
            = Some (Inr (0, active es \<noteq> [] \<or> (err_occurred es \<and> failed es \<noteq> [])), es', rt', lg')
           \<and> active es' = []
           \<and> err_occurred es' = (err_occurred es \<or> active es \<noteq> [])
           \<and> length (failed es') = length (failed es) + length (active es)"
proof -
  let ?c0 = "\<lparr>ctx_es = es, ctx_rt = rt, ctx_polls = [], any_failed = False, any_succeeded = False\<rparr>"
  let ?t0 = "now_ns E rt"
  from sweep_all_fail[OF assms, of ?c0 "[]" tmo ?t0] obtain c' where
    c': "H5ES__wait_sweep E tmo ?t0 [] (active es) ?c0 = (None, c')" "active (ctx_es c') = []"
      "any_failed c' = (active es \<noteq> [])"
      "err_occurred (ctx_es c') = (err_occurred es \<or> active es \<noteq> [])"
      "length (failed (ctx_es c')) = length (failed es) + length (active es)" by auto
  have loop: "H5ES__wait_loop E tmo ?t0 (es, rt, lg)
                = Some (None, active es \<noteq> [], ctx_es c', ctx_rt c', lg @ [ctx_polls c'])"
    apply (subst H5ES__wait_loop.simps)
    apply (simp only: Let_def fst_conv snd_conv c'(1))
    apply (simp add: c')
    done
  have f: "(active es = [] \<longrightarrow> err_occurred es \<and> failed (ctx_es c') \<noteq> [])
            = (active es = [] \<longrightarrow> err_occurred es \<and> failed es \<noteq> [])"
  proof (cases "active es = []")
    case True
    with c'(5) have "length (failed (ctx_es c')) = length (failed es)" by simp
    then have "(failed (ctx_es c') = []) = (failed es = [])" by (metis length_0_conv)
    with True c'(4) show ?thesis by simp
  next
    case False
    then show ?thesis by simp
  qed
  show ?thesis
    using c' f by (simp add: H5ES__wait_def loop H5ES__list_count_def)
qed

lemma wait_partial:
  assumes "H5ES__wait E (es, rt, lg) tmo = Some (r, es', rt', lg')"
  shows "\<exists>new. lg' = lg @ new
           \<and> wait_log_ok tmo (now_ns E rt) (case r of Inl e \<Rightarrow> Some e | Inr v \<Rightarrow> None) new
           \<and> op_counter es' = op_counter es"
proof -
  from assms obtain y where
    y: "H5ES__wait_loop E tmo (now_ns E rt) (es, rt, lg) = Some y"
    and r: "fst y = (case r of Inl e \<Rightarrow> Some e | Inr v \<Rightarrow> None)"
    and s: "snd (snd y) = (es', rt', lg')"
    by (auto simp: H5ES__wait_def split: option.splits)
  from wait_loop_partial[OF y] r s show ?thesis
    by (auto simp: wait_loop_post_def)
qed

lemma visit_token:
  assumes "H5ES__wait_visit E tmo t0 kept r rs c = (err, kept', c')"
  shows "map poll_token (ctx_polls c') = map poll_token (ctx_polls c) @ [token r]"
  using assms
  by (auto simp: H5ES__wait_visit_def Let_def poll_token_def
      split: sum.splits H5ES_status.splits)

lemma sweep_tokens:
  "\<exists>n. n \<le> length rs
      \<and> map poll_token (ctx_polls (snd (H5ES__wait_sweep E tmo t0 kept rs c)))
            = map poll_token (ctx_polls c) @ take n (map token rs)
      \<and> (fst (H5ES__wait_sweep E tmo t0 kept rs c) = None \<longrightarrow> n = length rs)"
proof (induction rs arbitrary: kept c)
  case Nil
  then show ?case by simp
next
  case (Cons r rs)
  obtain err kept' c1 where v: "H5ES__wait_visit E tmo t0 kept r rs c = (err, kept', c1)"
    by (metis prod_cases3)
  note t = visit_token[OF v]
  show ?case
  proof (cases err)
    case (Some e)
    with v have eq: "H5ES__wait_sweep E tmo t0 kept (r # rs) c = (Some e, c1)" by simp
    have "Suc 0 \<le> length (r # rs)
      \<and> map poll_token (ctx_polls (snd (Some e, c1)))
            = map poll_token (ctx_polls c) @ take (Suc 0) (map token (r # rs))
      \<and> (fst (Some e, c1) = None \<longrightarrow> Suc 0 = length (r # rs))"
      using t by simp
    then show ?thesis unfolding eq by (rule exI)
  next
    case None
    have eq: "H5ES__wait_sweep E tmo t0 kept (r # rs) c = H5ES__wait_sweep E tmo t0 kept' rs c1"
      using v None by simp
    from Cons.IH[of kept' c1] obtain m where
      m: "m \<le> length rs
         \<and> map poll_token (ctx_polls (snd (H5ES__wait_sweep E tmo t0 kept' rs c1)))
            = map poll_token (ctx_polls c1) @ take m (map token rs)
         \<and> (fst (H5ES__wait_sweep E tmo t0 kept' rs c1) = None \<longrightarrow> m = length rs)"
      ..
    have "Suc m \<le> length (r # rs)
      \<and> map poll_token (ctx_polls (snd (H5ES__wait_sweep E tmo t0 kept' rs c1)))
            = map poll_token (ctx_polls c) @ take (Suc m) (map token (r # rs))
      \<and> (fst (H5ES__wait_sweep E tmo t0 kept' rs c1) = None \<longrightarrow> Suc m = length (r # rs))"
      using m t by simp
    then show ?thesis unfolding eq by (rule exI)
  qed
qed

lemma wait_loop_zero:
  "H5ES__wait_loop E 0 t0 s =
     Some (fst (H5ES__wait_sweep E 0 t0 [] (active (fst s))
                  \<lparr>ctx_es = fst s, ctx_rt = fst (snd s), ctx_polls = [],
                   any_failed = False, any_succeeded = False\<rparr>),
           any_failed (snd (H5ES__wait_sweep E 0 t0 [] (active (fst s))
                  \<lparr>ctx_es = fst s, ctx_rt = fst (snd s), ctx_polls = [],
                   any_failed = False, any_succeeded = False\<rparr>)),
           ctx_es (snd (H5ES__wait_sweep E 0 t0 [] (active (fst s))
                  \<lparr>ctx_es = fst s, ctx_rt = fst (snd s), ctx_polls = [],
                   any_failed = False, any_succeeded = False\<rparr>)),
           ctx_rt (snd (H5ES__wait_sweep E 0 t0 [] (active (fst s))
                  \<lparr>ctx_es = fst s, ctx_rt = fst (snd s), ctx_polls = [],
                   any_failed = False, any_succeeded = False\<rparr>)),
           snd (snd s) @ [ctx_polls (snd (H5ES__wait_sweep E 0 t0 [] (active (fst s))
                  \<lparr>ctx_es = fst s, ctx_rt = fst (snd s), ctx_polls = [],
                   any_failed = False, any_succeeded = False\<rparr>))])"
  by (subst H5ES__wait_loop.simps) (simp add: Let_def)

lemma within_budget_zero: "within_budget 0 t0 ev \<Longrightarrow> budget_of ev = 0"
  by (simp add: within_budget_def)

lemma wait_zero:
  "\<exists>r es' rt' sw. H5ES__wait E (es, rt, lg) 0 = Some (r, es', rt', lg @ [sw])
        \<and> (\<forall>ev\<in>set sw. budget_of ev = 0)
        \<and> map poll_token sw = take (length sw) (map token (active es))
        \<and> ((\<exists>v. r = Inr v) \<longrightarrow> map poll_token sw = map token (active es))"
proof -
  define res where "res = H5ES__wait_sweep E 0 (now_ns E rt) [] (active es)
      \<lparr>ctx_es = es, ctx_rt = rt, ctx_polls = [], any_failed = False, any_succeeded = False\<rparr>"
  define cc where "cc = snd res"
  define sw where "sw = ctx_polls cc"
  have lp: "H5ES__wait_loop E 0 (now_ns E rt) (es, rt, lg)
              = Some (fst res, any_failed cc, ctx_es cc, ctx_rt cc, lg @ [sw])"
    unfolding sw_def cc_def res_def by (simp add: wait_loop_zero)
  from sweep_start[of E 0 "now_ns E rt" es rt]
  have "\<forall>ev\<in>set sw. within_budget 0 (now_ns E rt) ev"
    unfolding sw_def cc_def res_def by blast
  then have b: "\<forall>ev\<in>set sw. budget_of ev = 0"
    using within_budget_zero by blast
  from sweep_tokens[where rs = "active es" and E = E and tmo = 0 and ?t0.0 = "now_ns E rt"
      and kept = "[]"
      and c = "\<lparr>ctx_es = es, ctx_rt = rt, ctx_polls = [], any_failed = False,
                 any_succeeded = False\<rparr>"]
  have "\<exists>n. n \<le> length (active es) \<and> map poll_token sw = take n (map token (active es))
       \<and> (fst res = None \<longrightarrow> n = length (active es))"
    unfolding sw_def cc_def res_def by simp
  then obtain n where
    n0: "n \<le> length (active es) \<and> map poll_token sw = take n (map token (active es))
       \<and> (fst res = None \<longrightarrow> n = length (active es))" ..
  then have n: "n \<le> length (active es)" "map poll_token sw = take n (map token (active es))"
       "fst res = None \<longrightarrow> n = length (active es)"
    by simp_all
  from n(2) have "length sw = length (take n (map token (active es)))"
    by (metis length_map)
  with n(1) have len: "length sw = n" by simp
  from n(2) len have t: "map poll_token sw = take (length sw) (map token (active es))"
    by simp
  from n(2,3) have f: "fst res = None \<longrightarrow> map poll_token sw = map token (active es)"
    by simp
  show ?thesis
  proof (cases "fst res")
    case None
    with lp have "H5ES__wait E (es, rt, lg) 0
        = Some (Inr (H5ES__list_count (active (ctx_es cc)),
                     any_failed cc
                     \<or> (err_occurred (ctx_es cc) \<and> H5ES__list_count (failed (ctx_es cc)) > 0)),
                ctx_es cc, ctx_rt cc, lg @ [sw])"
      by (simp add: H5ES__wait_def)
    with b t f None show ?thesis by blast
  next
    case (Some e)
    with lp have "H5ES__wait E (es, rt, lg) 0 = Some (Inl e, ctx_es cc, ctx_rt cc, lg @ [sw])"
      by (simp add: H5ES__wait_def)
    with b t show ?thesis by blast
  qed
qed

lemma visit_clock:
  assumes "clock_advances E"
    and "H5ES__wait_visit E tmo t0 kept r rs c = (err, kept', c')"
  shows "now_ns E (ctx_rt c) < now_ns E (ctx_rt c')"
proof -
  let ?b = "min (poll_budget E (remaining_budget E tmo t0 (ctx_rt c)))
                (remaining_budget E tmo t0 (ctx_rt c))"
  let ?rt1 = "snd (poll E (ctx_rt c) (token r) ?b)"
  from assms(1) have p: "now_ns E (ctx_rt c) < now_ns E ?rt1"
    and q: "now_ns E ?rt1 \<le> now_ns E (release E ?rt1 (token r))"
    unfolding clock_advances_def by blast+
  from assms(2) have "ctx_rt c' = ?rt1 \<or> ctx_rt c' = release E ?rt1 (token r)"
    by (auto simp: H5ES__wait_visit_def Let_def split: sum.splits H5ES_status.splits)
  with p q show ?thesis by auto
qed

lemma sweep_clock:
  assumes "clock_advances E"
  shows "now_ns E (ctx_rt c) \<le> now_ns E (ctx_rt (snd (H5ES__wait_sweep E tmo t0 kept rs c)))
       \<and> (rs \<noteq> [] \<longrightarrow>
            now_ns E (ctx_rt c) < now_ns E (ctx_rt (snd (H5ES__wait_sweep E tmo t0 kept rs c))))"
proof (induction rs arbitrary: kept c)
  case Nil
  then show ?case by simp
next
  case (Cons r rs)
  obtain err kept' c1 where v: "H5ES__wait_visit E tmo t0 kept r rs c = (err, kept', c1)"
    by (metis prod_cases3)
  note lt = visit_clock[OF assms v]
  show ?case
  proof (cases err)
    case (Some e)
    with v lt show ?thesis by simp
  next
    case None
    have eq: "H5ES__wait_sweep E tmo t0 kept (r # rs) c = H5ES__wait_sweep E tmo t0 kept' rs c1"
      using v None by simp
    from Cons.IH[of c1 kept'] have
      "now_ns E (ctx_rt c1) \<le> now_ns E (ctx_rt (snd (H5ES__wait_sweep E tmo t0 kept' rs c1)))"
      by simp
    with lt show ?thesis unfolding eq by simp
  qed
qed

lemma wait_loop_terminates:
  assumes adv: "clock_advances E"
    and t0: "t0 \<le> now_ns E (fst (snd s))"
  shows "\<exists>y. H5ES__wait_loop E tmo t0 s = Some y"
  using t0
proof (induction "remaining_budget E tmo t0 (fst (snd s)) + length (active (fst s))"
    arbitrary: s rule: less_induct)
  case less
  define res where "res = H5ES__wait_sweep E tmo t0 [] (active (fst s))
      \<lparr>ctx_es = fst s, ctx_rt = fst (snd s), ctx_polls = [],
       any_failed = False, any_succeeded = False\<rparr>"
  define cc where "cc = snd res"
  define s' where "s' = (ctx_es cc, ctx_rt cc, snd (snd s) @ [ctx_polls cc])"
  have unf: "H5ES__wait_loop E tmo t0 s =
      (if fst res \<noteq> None then Some (fst res, any_failed cc, s')
       else if any_failed cc then Some (None, True, s')
       else if active (ctx_es cc) = [] then Some (None, False, s')
       else if tmo = 0 then Some (None, False, s')
       else if remaining_budget E tmo t0 (ctx_rt cc) = 0 \<and> \<not> any_succeeded cc
         then Some (None, False, s')
       else H5ES__wait_loop E tmo t0 s')"
    unfolding s'_def cc_def res_def
    by (subst H5ES__wait_loop.simps) (simp only: Let_def)
  show ?case
  proof (cases "fst res \<noteq> None \<or> any_failed cc \<or> active (ctx_es cc) = [] \<or> tmo = 0
        \<or> (remaining_budget E tmo t0 (ctx_rt cc) = 0 \<and> \<not> any_succeeded cc)")
    case True
    then consider "fst res \<noteq> None"
      | "fst res = None" "any_failed cc"
      | "fst res = None" "\<not> any_failed cc" "active (ctx_es cc) = []"
      | "fst res = None" "\<not> any_failed cc" "active (ctx_es cc) \<noteq> []" "tmo = 0"
      | "fst res = None" "\<not> any_failed cc" "active (ctx_es cc) \<noteq> []" "tmo \<noteq> 0"
        "remaining_budget E tmo t0 (ctx_rt cc) = 0 \<and> \<not> any_succeeded cc"
      by blast
    then show ?thesis
    proof cases
      case 1
      then have "H5ES__wait_loop E tmo t0 s = Some (fst res, any_failed cc, s')"
        unfolding unf by simp
      then show ?thesis ..
    next
      case 2
      then have "H5ES__wait_loop E tmo t0 s = Some (None, True, s')"
        unfolding unf by simp
      then show ?thesis ..
    next
      case 3
      then have "H5ES__wait_loop E tmo t0 s = Some (None, False, s')"
        unfolding unf by simp
      then show ?thesis ..
    next
      case 4
      then have "H5ES__wait_loop E tmo t0 s = Some (None, False, s')"
        unfolding unf by simp
      then show ?thesis ..
    next
      case 5
      then have "H5ES__wait_loop E tmo t0 s = Some (None, False, s')"
        unfolding unf by simp
      then show ?thesis ..
    qed
  next
    case False
    then have none: "fst res = None" and nf: "\<not> any_failed cc"
      and ne: "active (ctx_es cc) \<noteq> []" and nz: "tmo \<noteq> 0"
      and cont: "\<not> (remaining_budget E tmo t0 (ctx_rt cc) = 0 \<and> \<not> any_succeeded cc)"
      by auto
    have rec: "H5ES__wait_loop E tmo t0 s = H5ES__wait_loop E tmo t0 s'"
      unfolding unf using none nf ne nz cont by (simp only: if_False not_not if_True simp_thms)
    from sweep_start[of E tmo t0 "fst s" "fst (snd s)"] none
    have len: "length (active (ctx_es cc)) \<le> length (active (fst s))"
      and lens: "any_succeeded cc \<longrightarrow> length (active (ctx_es cc)) < length (active (fst s))"
      unfolding cc_def res_def by simp_all
    from ne len have ne0: "active (fst s) \<noteq> []" by auto
    from sweep_clock[OF adv, of "\<lparr>ctx_es = fst s, ctx_rt = fst (snd s), ctx_polls = [],
       any_failed = False, any_succeeded = False\<rparr>" tmo t0 "[]" "active (fst s)"] ne0
    have clk: "now_ns E (fst (snd s)) < now_ns E (ctx_rt cc)"
      unfolding cc_def res_def by simp
    with less.prems have t0': "t0 \<le> now_ns E (fst (snd s'))" unfolding s'_def by simp
    have dec: "remaining_budget E tmo t0 (fst (snd s')) + length (active (fst s'))
             < remaining_budget E tmo t0 (fst (snd s)) + length (active (fst s))"
    proof (cases "any_succeeded cc")
      case True
      with lens have "length (active (ctx_es cc)) < length (active (fst s))" by simp
      moreover from clk less.prems
      have "remaining_budget E tmo t0 (ctx_rt cc) \<le> remaining_budget E tmo t0 (fst (snd s))"
        by (simp add: remaining_budget_def)
      ultimately show ?thesis unfolding s'_def by simp
    next
      case False
      with cont have "remaining_budget E tmo t0 (ctx_rt cc) \<noteq> 0" by simp
      with clk less.prems
      have "remaining_budget E tmo t0 (ctx_rt cc) < remaining_budget E tmo t0 (fst (snd s))"
        by (simp add: remaining_budget_def)
      with len show ?thesis unfolding s'_def by simp
    qed
    from less.hyps[OF dec t0'] rec show ?thesis by simp
  qed
qed

lemma wait_terminates:
  assumes "clock_advances E"
  shows "\<exists>r es' rt' lg'. H5ES__wait E (es, rt, lg) tmo = Some (r, es', rt', lg')"
proof -
  from wait_loop_terminates[OF assms, of "now_ns E rt" "(es, rt, lg)" tmo]
  obtain y where "H5ES__wait_loop E tmo (now_ns E rt) (es, rt, lg) = Some y" by auto
  then show ?thesis
    by (cases y) (auto simp: H5ES__wait_def split: option.splits)
qed

lemma H5ESwait_run:
  assumes "H5I_object_verify (ids w) es_id H5I_EVENTSET = Some es"
    and "H5ES__wait E (es, runtime w, poll_log w) (unat timeout) = Some (r, es', rt', lg')"
  shows "H5ESwait E w es_id timeout (Some a) (Some b) =
           Returns (case r of Inl e \<Rightarrow> FAIL ((H5E_EVENTSET, H5E_CANTWAIT) # e) | Inr v \<Rightarrow> SUCCEED,
                    case r of Inl e \<Rightarrow> Some a | Inr v \<Rightarrow> Some (fst v),
                    case r of Inl e \<Rightarrow> Some b | Inr v \<Rightarrow> Some (snd v),
                    w\<lparr>ids := H5I_object_update (ids w) es_id es', runtime := rt', poll_log := lg'\<rparr>)"
  using assms by (auto simp: H5ESwait_def ptr_store_def split: sum.splits)

lemma H5ESwait_cases:
  assumes "H5ESwait E w es_id timeout nip opf = Returns (r, nip', opf', w')"
  shows "(H5I_get_type (ids w) es_id \<noteq> H5I_EVENTSET \<and> w' = w \<and> r = FAIL [(H5E_ARGS, H5E_BADTYPE)])
       \<or> ((nip = None \<or> opf = None) \<and> w' = w \<and> r = FAIL [(H5E_ARGS, H5E_BADVALUE)])
       \<or> (\<exists>es res es' rt' lg'. H5I_object_verify (ids w) es_id H5I_EVENTSET = Some es
             \<and> H5ES__wait E (es, runtime w, poll_log w) (unat timeout) = Some (res, es', rt', lg')
             \<and> r = (case res of Inl e \<Rightarrow> FAIL ((H5E_EVENTSET, H5E_CANTWAIT) # e) | Inr v \<Rightarrow> SUCCEED)
             \<and> w' = w\<lparr>ids := H5I_object_update (ids w) es_id es', runtime := rt', poll_log := lg'\<rparr>)"
  using assms
  by (auto simp: H5ESwait_def H5I_verify_iff_type[symmetric] ptr_store_def
      split: option.splits if_splits sum.splits prod.splits)

text \<open>
  C1. The return code of \<open>H5ESwait\<close> does not report the failure of
  operations. If the call returns \<open>FAIL\<close>, then the identifier is not an
  event set, or an out-pointer is NULL, or the engine could not execute: the
  error stack is \<open>(H5E_EVENTSET, H5E_CANTWAIT)\<close> on top of a structural
  error that the runtime answered to a poll of this call. And when every
  operation of the set fails (the runtime answers FAIL or CANCEL for each
  active record), the call returns \<open>SUCCEED\<close>, with nothing in
  progress and \<open>op_failed\<close> set; the records are then in the failed list
  and the error flag is set, which is where \<open>H5ESget_err_status\<close>,
  \<open>H5ESget_err_count\<close> and \<open>H5ESget_err_info\<close> read them.
\<close>

theorem H5ESwait_return_code:
  "(H5ESwait E w es_id timeout nip opf = Returns (FAIL stk, nip', opf', w') \<longrightarrow>
      H5I_get_type (ids w) es_id \<noteq> H5I_EVENTSET \<or> nip = None \<or> opf = None
      \<or> (\<exists>e new. stk = (H5E_EVENTSET, H5E_CANTWAIT) # e \<and> poll_log w' = poll_log w @ new
            \<and> (\<exists>ev\<in>set (concat new). poll_answer ev = Inl e)))
   \<and> (H5I_object_verify (ids w) es_id H5I_EVENTSET = Some es
        \<and> (\<forall>rt b. \<forall>r\<in>set (active es).
               fst (poll E rt (token r) b) = Inr H5ES_STATUS_FAIL
             \<or> fst (poll E rt (token r) b) = Inr H5ES_STATUS_CANCEL) \<longrightarrow>
      (\<exists>w' es'. H5ESwait E w es_id timeout (Some n0) (Some f0)
                   = Returns (SUCCEED, Some 0,
                              Some (active es \<noteq> [] \<or> (err_occurred es \<and> failed es \<noteq> [])), w')
         \<and> H5I_object_verify (ids w') es_id H5I_EVENTSET = Some es'
         \<and> active es' = []
         \<and> length (failed es') = length (failed es) + length (active es)
         \<and> err_occurred es' = (err_occurred es \<or> active es \<noteq> [])
         \<and> H5ESget_err_status w' es_id (Some s0)
             = Returns (SUCCEED, Some (err_occurred es \<or> active es \<noteq> []), w')
         \<and> H5ESget_err_count w' es_id (Some k0)
             = Returns (SUCCEED,
                        Some (if err_occurred es \<or> active es \<noteq> []
                              then length (failed es) + length (active es) else 0),
                        w')))"
proof (intro conjI impI)
  assume a: "H5ESwait E w es_id timeout nip opf = Returns (FAIL stk, nip', opf', w')"
  from H5ESwait_cases[OF a] consider
    "H5I_get_type (ids w) es_id \<noteq> H5I_EVENTSET" | "nip = None \<or> opf = None"
    | es res es' rt' lg' where "H5I_object_verify (ids w) es_id H5I_EVENTSET = Some es"
         "H5ES__wait E (es, runtime w, poll_log w) (unat timeout) = Some (res, es', rt', lg')"
         "FAIL stk = (case res of Inl e \<Rightarrow> FAIL ((H5E_EVENTSET, H5E_CANTWAIT) # e) | Inr v \<Rightarrow> SUCCEED)"
         "w' = w\<lparr>ids := H5I_object_update (ids w) es_id es', runtime := rt', poll_log := lg'\<rparr>"
    by blast
  then show "H5I_get_type (ids w) es_id \<noteq> H5I_EVENTSET \<or> nip = None \<or> opf = None
      \<or> (\<exists>e new. stk = (H5E_EVENTSET, H5E_CANTWAIT) # e \<and> poll_log w' = poll_log w @ new
            \<and> (\<exists>ev\<in>set (concat new). poll_answer ev = Inl e))"
  proof cases
    case 1
    then show ?thesis by simp
  next
    case 2
    then show ?thesis by blast
  next
    case 3
    from 3(3) obtain e where e: "res = Inl e" "stk = (H5E_EVENTSET, H5E_CANTWAIT) # e"
      by (cases res) auto
    from wait_partial[OF 3(2)] e obtain new where
      "lg' = poll_log w @ new" "wait_log_ok (unat timeout) (now_ns E (runtime w)) (Some e) new"
      by auto
    then show ?thesis using e 3(4) by (auto simp: wait_log_ok_def)
  qed
next
  assume h: "H5I_object_verify (ids w) es_id H5I_EVENTSET = Some es
        \<and> (\<forall>rt b. \<forall>r\<in>set (active es).
               fst (poll E rt (token r) b) = Inr H5ES_STATUS_FAIL
             \<or> fst (poll E rt (token r) b) = Inr H5ES_STATUS_CANCEL)"
  then have v: "H5I_object_verify (ids w) es_id H5I_EVENTSET = Some es" by simp
  from h wait_all_fail[of es E "runtime w" "poll_log w" "unat timeout"] obtain es' rt' lg' where
    r: "H5ES__wait E (es, runtime w, poll_log w) (unat timeout)
            = Some (Inr (0, active es \<noteq> [] \<or> (err_occurred es \<and> failed es \<noteq> [])), es', rt', lg')"
      "active es' = []" "err_occurred es' = (err_occurred es \<or> active es \<noteq> [])"
      "length (failed es') = length (failed es) + length (active es)" by blast
  let ?w' = "w\<lparr>ids := H5I_object_update (ids w) es_id es', runtime := rt', poll_log := lg'\<rparr>"
  from v have v': "H5I_object_verify (ids ?w') es_id H5I_EVENTSET = Some es'"
    by (auto simp: H5I_object_verify_def H5I_object_update_def split: option.splits H5I_object.splits)
  have st: "H5ESget_err_status ?w' es_id (Some s0)
             = Returns (SUCCEED, Some (err_occurred es \<or> active es \<noteq> []), ?w')"
    using v' r(3) by (simp add: H5ESget_err_status_def ptr_store_def)
  have ct: "H5ESget_err_count ?w' es_id (Some k0)
             = Returns (SUCCEED,
                        Some (if err_occurred es \<or> active es \<noteq> []
                              then length (failed es) + length (active es) else 0),
                        ?w')"
    using v' r(3,4) by (simp add: H5ESget_err_count_def ptr_store_def H5ES__list_count_def)
  from H5ESwait_run[OF v r(1), of n0 f0] r v' st ct
  show "\<exists>w' es'. H5ESwait E w es_id timeout (Some n0) (Some f0)
                   = Returns (SUCCEED, Some 0,
                              Some (active es \<noteq> [] \<or> (err_occurred es \<and> failed es \<noteq> [])), w')
         \<and> H5I_object_verify (ids w') es_id H5I_EVENTSET = Some es'
         \<and> active es' = []
         \<and> length (failed es') = length (failed es) + length (active es)
         \<and> err_occurred es' = (err_occurred es \<or> active es \<noteq> [])
         \<and> H5ESget_err_status w' es_id (Some s0)
             = Returns (SUCCEED, Some (err_occurred es \<or> active es \<noteq> []), w')
         \<and> H5ESget_err_count w' es_id (Some k0)
             = Returns (SUCCEED,
                        Some (if err_occurred es \<or> active es \<noteq> []
                              then length (failed es) + length (active es) else 0),
                        w')"
    by (intro exI[of _ ?w'] exI[of _ es']) simp
qed

lemma demo_wait_runtime_error:
  "H5ES__wait demo_runtime (es_runtime_error, 0, []) 10
     = Some (Inl [(H5E_MAJOR_OTHER 0, H5E_MINOR_OTHER 0)], es_runtime_error, 10,
             [[(4, 10, 0, Inl [(H5E_MAJOR_OTHER 0, H5E_MINOR_OTHER 0)])]])"
  by code_simp

lemma demo_all_fail:
  "\<forall>rt b. \<forall>r\<in>set (active es_both_fail).
      fst (poll demo_runtime rt (token r) b) = Inr H5ES_STATUS_FAIL
    \<or> fst (poll demo_runtime rt (token r) b) = Inr H5ES_STATUS_CANCEL"
  by (simp add: es_both_fail_def demo_runtime_def demo_answer_def demo_op_def)

theorem H5ESwait_return_code_witness:
  "H5ESwait demo_runtime (demo_world es_runtime_error) 1 10 (Some 0) (Some False)
     = Returns (FAIL [(H5E_EVENTSET, H5E_CANTWAIT), (H5E_MAJOR_OTHER 0, H5E_MINOR_OTHER 0)],
                Some 0, Some False,
                (demo_world es_runtime_error)
                  \<lparr>ids := H5I_object_update (ids (demo_world es_runtime_error)) 1 es_runtime_error,
                   runtime := 10,
                   poll_log := [[(4, 10, 0, Inl [(H5E_MAJOR_OTHER 0, H5E_MINOR_OTHER 0)])]]\<rparr>)
   \<and> poll_answer (4, 10, 0, Inl [(H5E_MAJOR_OTHER 0, H5E_MINOR_OTHER 0)])
       = Inl [(H5E_MAJOR_OTHER 0, H5E_MINOR_OTHER 0)]
   \<and> (\<exists>w'. H5ESwait demo_runtime (demo_world es_both_fail) 1 10 (Some 9) (Some False)
              = Returns (SUCCEED, Some 0, Some True, w'))"
proof -
  let ?w = "demo_world es_runtime_error"
  let ?w' = "?w\<lparr>ids := H5I_object_update (ids ?w) 1 es_runtime_error,
                   runtime := 10,
                   poll_log := [[(4, 10, 0, Inl [(H5E_MAJOR_OTHER 0, H5E_MINOR_OTHER 0)])]]\<rparr>"
  have e: "H5ES__wait demo_runtime (es_runtime_error, runtime ?w, poll_log ?w) (unat (10::64 word))
     = Some (Inl [(H5E_MAJOR_OTHER 0, H5E_MINOR_OTHER 0)], es_runtime_error, 10,
             [[(4, 10, 0, Inl [(H5E_MAJOR_OTHER 0, H5E_MINOR_OTHER 0)])]])"
    using demo_wait_runtime_error by (simp add: demo_world_def)
  from H5ESwait_run[OF demo_world_verify e, of 0 False]
  have run: "H5ESwait demo_runtime ?w 1 10 (Some 0) (Some False)
     = Returns (FAIL [(H5E_EVENTSET, H5E_CANTWAIT), (H5E_MAJOR_OTHER 0, H5E_MINOR_OTHER 0)],
                Some 0, Some False, ?w')" by simp
  note inst1 = H5ESwait_return_code[where E = demo_runtime and w = ?w and es_id = 1
      and timeout = 10 and nip = "Some 0" and opf = "Some False"
      and stk = "[(H5E_EVENTSET, H5E_CANTWAIT), (H5E_MAJOR_OTHER 0, H5E_MINOR_OTHER 0)]"
      and nip' = "Some 0" and opf' = "Some False" and w' = ?w'
      and es = es_both_fail and ?n0.0 = 9 and ?f0.0 = False and ?s0.0 = False and ?k0.0 = 0]
  from inst1 run have "\<exists>e new. [(H5E_EVENTSET, H5E_CANTWAIT), (H5E_MAJOR_OTHER 0, H5E_MINOR_OTHER 0)]
        = (H5E_EVENTSET, H5E_CANTWAIT) # e \<and> poll_log ?w' = poll_log ?w @ new
            \<and> (\<exists>ev\<in>set (concat new). poll_answer ev = Inl e)"
    by simp
  then have pa: "poll_answer (4, 10, 0, Inl [(H5E_MAJOR_OTHER 0, H5E_MINOR_OTHER 0)])
       = Inl [(H5E_MAJOR_OTHER 0, H5E_MINOR_OTHER 0)]"
    by (simp add: demo_world_def)
  note inst2 = H5ESwait_return_code[where E = demo_runtime and w = "demo_world es_both_fail"
      and es_id = 1 and timeout = 10 and nip = None and opf = None and stk = "[]"
      and nip' = None and opf' = None and w' = "demo_world es_both_fail"
      and es = es_both_fail and ?n0.0 = 9 and ?f0.0 = False and ?s0.0 = False and ?k0.0 = 0]
  from inst2 demo_all_fail
  have "\<exists>w'. H5ESwait demo_runtime (demo_world es_both_fail) 1 10 (Some 9) (Some False)
              = Returns (SUCCEED, Some 0,
                   Some (active es_both_fail \<noteq> [] \<or> (err_occurred es_both_fail \<and> failed es_both_fail \<noteq> [])), w')"
    by auto
  then have ok: "\<exists>w'. H5ESwait demo_runtime (demo_world es_both_fail) 1 10 (Some 9) (Some False)
              = Returns (SUCCEED, Some 0, Some True, w')"
    by (simp add: es_both_fail_def)
  from run pa ok show ?thesis by simp
qed

section \<open>The timeout as a budget\<close>

text \<open>
  C2. The timeout of \<open>H5ESwait\<close> is one budget for the whole call, not an
  allowance for each operation. Every poll is issued by a sweep, and in every
  sweep of a call with this timeout that began at \<open>t_start\<close>, whether or
  not the call returns, each poll is given at most the timeout less the time
  elapsed since \<open>t_start\<close>, so the time one record takes is no longer there
  for the next; the log of a call that returns shows the same. When time
  passes in the runtime, a call on an event set with both out-pointers given
  does return, whatever the timeout and whatever the runtime answers, and
  every poll it logged is within that budget. With timeout 0
  the call returns, and it performs exactly one sweep of the active list: one
  list of polls is logged, it polls the active records once each in insertion
  order (all of them unless the runtime reports a structural error on the
  way), and every poll is given budget 0, so none blocks.
\<close>

theorem H5ESwait_shared_budget:
  "(\<exists>new. ctx_polls (snd (H5ES__wait_sweep E (unat timeout) t_start kept rs c))
            = ctx_polls c @ new
         \<and> (\<forall>ev\<in>set new. within_budget (unat timeout) t_start ev))
   \<and> (H5ESwait E w es_id timeout nip opf = Returns (r, nip', opf', w') \<longrightarrow>
      (\<exists>new. poll_log w' = poll_log w @ new
         \<and> (\<forall>ev\<in>set (concat new). within_budget (unat timeout) (now_ns E (runtime w)) ev)))
   \<and> (clock_advances E
        \<and> H5I_object_verify (ids w) es_id H5I_EVENTSET = Some es \<and> nip \<noteq> None \<and> opf \<noteq> None \<longrightarrow>
      (\<exists>r nip' opf' w' new. H5ESwait E w es_id timeout nip opf = Returns (r, nip', opf', w')
         \<and> poll_log w' = poll_log w @ new
         \<and> (\<forall>ev\<in>set (concat new). within_budget (unat timeout) (now_ns E (runtime w)) ev)))
   \<and> (H5I_object_verify (ids w) es_id H5I_EVENTSET = Some es \<and> nip \<noteq> None \<and> opf \<noteq> None \<longrightarrow>
      (\<exists>r nip' opf' w' sw. H5ESwait E w es_id 0 nip opf = Returns (r, nip', opf', w')
         \<and> poll_log w' = poll_log w @ [sw]
         \<and> (\<forall>ev\<in>set sw. budget_of ev = 0)
         \<and> map poll_token sw = take (length sw) (map token (active es))
         \<and> (r = SUCCEED \<longrightarrow> map poll_token sw = map token (active es))))"
proof (intro conjI impI)
  from sweep_polls[of E "unat timeout" t_start kept rs c]
  show "\<exists>new. ctx_polls (snd (H5ES__wait_sweep E (unat timeout) t_start kept rs c))
            = ctx_polls c @ new
         \<and> (\<forall>ev\<in>set new. within_budget (unat timeout) t_start ev)"
    by blast
next
  assume a: "H5ESwait E w es_id timeout nip opf = Returns (r, nip', opf', w')"
  from H5ESwait_cases[OF a] consider "w' = w"
    | es res es' rt' lg' where
         "H5ES__wait E (es, runtime w, poll_log w) (unat timeout) = Some (res, es', rt', lg')"
         "w' = w\<lparr>ids := H5I_object_update (ids w) es_id es', runtime := rt', poll_log := lg'\<rparr>"
    by blast
  then show "\<exists>new. poll_log w' = poll_log w @ new
         \<and> (\<forall>ev\<in>set (concat new). within_budget (unat timeout) (now_ns E (runtime w)) ev)"
  proof cases
    case 1
    then show ?thesis by (intro exI[of _ "[]"]) simp
  next
    case 2
    from wait_partial[OF 2(1)] obtain new where
      "lg' = poll_log w @ new"
      "wait_log_ok (unat timeout) (now_ns E (runtime w)) (case res of Inl e \<Rightarrow> Some e | Inr v \<Rightarrow> None) new"
      by blast
    then show ?thesis using 2(2) by (intro exI[of _ new]) (simp add: wait_log_ok_def)
  qed
next
  assume h: "clock_advances E
        \<and> H5I_object_verify (ids w) es_id H5I_EVENTSET = Some es \<and> nip \<noteq> None \<and> opf \<noteq> None"
  then obtain a b where p: "nip = Some a" "opf = Some b" by auto
  from h have v: "H5I_object_verify (ids w) es_id H5I_EVENTSET = Some es"
    and adv: "clock_advances E" by simp_all
  from wait_terminates[OF adv, of es "runtime w" "poll_log w" "unat timeout"]
  obtain res es' rt' lg' where
    t: "H5ES__wait E (es, runtime w, poll_log w) (unat timeout) = Some (res, es', rt', lg')"
    by blast
  from wait_partial[OF t] obtain new where
    n: "lg' = poll_log w @ new"
       "wait_log_ok (unat timeout) (now_ns E (runtime w))
          (case res of Inl e \<Rightarrow> Some e | Inr v \<Rightarrow> None) new"
    by blast
  let ?w' = "w\<lparr>ids := H5I_object_update (ids w) es_id es', runtime := rt', poll_log := lg'\<rparr>"
  let ?r = "case res of Inl e \<Rightarrow> FAIL ((H5E_EVENTSET, H5E_CANTWAIT) # e) | Inr v \<Rightarrow> SUCCEED"
  from H5ESwait_run[OF v t, of a b] p
  have "\<exists>nip' opf'. H5ESwait E w es_id timeout nip opf = Returns (?r, nip', opf', ?w')" by simp
  then obtain nip' opf' where
    run': "H5ESwait E w es_id timeout nip opf = Returns (?r, nip', opf', ?w')" by blast
  show "\<exists>r nip' opf' w' new. H5ESwait E w es_id timeout nip opf = Returns (r, nip', opf', w')
         \<and> poll_log w' = poll_log w @ new
         \<and> (\<forall>ev\<in>set (concat new). within_budget (unat timeout) (now_ns E (runtime w)) ev)"
    apply (rule exI[of _ ?r], rule exI[of _ nip'], rule exI[of _ opf'], rule exI[of _ ?w'],
        rule exI[of _ new])
    using run' n by (simp add: wait_log_ok_def)
next
  assume h: "H5I_object_verify (ids w) es_id H5I_EVENTSET = Some es \<and> nip \<noteq> None \<and> opf \<noteq> None"
  then obtain a b where p: "nip = Some a" "opf = Some b" by auto
  from h have v: "H5I_object_verify (ids w) es_id H5I_EVENTSET = Some es" by simp
  from wait_zero[of E es "runtime w" "poll_log w"] obtain res es' rt' sw where
    z: "H5ES__wait E (es, runtime w, poll_log w) 0 = Some (res, es', rt', poll_log w @ [sw])"
       "\<forall>ev\<in>set sw. budget_of ev = 0"
       "map poll_token sw = take (length sw) (map token (active es))"
       "(\<exists>v. res = Inr v) \<longrightarrow> map poll_token sw = map token (active es)"
    by blast
  from z(1) have z0: "H5ES__wait E (es, runtime w, poll_log w) (unat (0::64 word))
      = Some (res, es', rt', poll_log w @ [sw])" by simp
  let ?w' = "w\<lparr>ids := H5I_object_update (ids w) es_id es', runtime := rt',
                poll_log := poll_log w @ [sw]\<rparr>"
  let ?r = "case res of Inl e \<Rightarrow> FAIL ((H5E_EVENTSET, H5E_CANTWAIT) # e) | Inr v \<Rightarrow> SUCCEED"
  from H5ESwait_run[OF v z0, of a b] p
  have run: "\<exists>nip' opf'. H5ESwait E w es_id 0 nip opf = Returns (?r, nip', opf', ?w')" by simp
  have "?r = SUCCEED \<longrightarrow> (\<exists>v. res = Inr v)" by (cases res) simp_all
  with z(4) have all: "?r = SUCCEED \<longrightarrow> map poll_token sw = map token (active es)" by blast
  from run obtain nip' opf' where
    run': "H5ESwait E w es_id 0 nip opf = Returns (?r, nip', opf', ?w')" by blast
  show "\<exists>r nip' opf' w' sw. H5ESwait E w es_id 0 nip opf = Returns (r, nip', opf', w')
         \<and> poll_log w' = poll_log w @ [sw]
         \<and> (\<forall>ev\<in>set sw. budget_of ev = 0)
         \<and> map poll_token sw = take (length sw) (map token (active es))
         \<and> (r = SUCCEED \<longrightarrow> map poll_token sw = map token (active es))"
    apply (rule exI[of _ ?r], rule exI[of _ nip'], rule exI[of _ opf'], rule exI[of _ ?w'],
        rule exI[of _ sw])
    using run' z(2,3) all by simp
qed

lemma demo_wait_timeout_5:
  "H5ES__wait demo_runtime (es_succeed_then_busy, 0, []) 5
     = Some (Inr (1, False),
             \<lparr>active = [demo_op 0 1 H5ES_STATUS_IN_PROGRESS], failed = [], op_counter = 2,
              err_occurred = False\<rparr>,
             5,
             [[(1, 5, 0, Inr H5ES_STATUS_SUCCEED), (0, 0, 5, Inr H5ES_STATUS_IN_PROGRESS)],
              [(0, 0, 5, Inr H5ES_STATUS_IN_PROGRESS)]])"
  by code_simp

lemma demo_wait_timeout_0:
  "H5ES__wait demo_runtime (es_succeed_then_busy, 0, []) 0
     = Some (Inr (1, False),
             \<lparr>active = [demo_op 0 1 H5ES_STATUS_IN_PROGRESS], failed = [], op_counter = 2,
              err_occurred = False\<rparr>,
             0,
             [[(1, 0, 0, Inr H5ES_STATUS_SUCCEED), (0, 0, 0, Inr H5ES_STATUS_IN_PROGRESS)]])"
  by code_simp

lemma demo_wait_ticking_5:
  "H5ES__wait demo_ticking_runtime (es_succeed_then_busy, 0, []) 5
     = Some (Inr (1, False),
             \<lparr>active = [demo_op 0 1 H5ES_STATUS_IN_PROGRESS], failed = [], op_counter = 2,
              err_occurred = False\<rparr>,
             8,
             [[(1, 5, 0, Inr H5ES_STATUS_SUCCEED), (0, 0, 6, Inr H5ES_STATUS_IN_PROGRESS)],
              [(0, 0, 7, Inr H5ES_STATUS_IN_PROGRESS)]])"
  by code_simp

lemma demo_ticking_advances: "clock_advances demo_ticking_runtime"
  by (simp add: clock_advances_def demo_ticking_runtime_def demo_runtime_def)

theorem H5ESwait_shared_budget_witness:
  "H5ESwait demo_runtime (demo_world es_succeed_then_busy) 1 5 (Some 0) (Some False)
     = Returns (SUCCEED, Some 1, Some False,
         (demo_world es_succeed_then_busy)
           \<lparr>ids := H5I_object_update (ids (demo_world es_succeed_then_busy)) 1
                    \<lparr>active = [demo_op 0 1 H5ES_STATUS_IN_PROGRESS], failed = [],
                     op_counter = 2, err_occurred = False\<rparr>,
            runtime := 5,
            poll_log := [[(1, 5, 0, Inr H5ES_STATUS_SUCCEED), (0, 0, 5, Inr H5ES_STATUS_IN_PROGRESS)],
                         [(0, 0, 5, Inr H5ES_STATUS_IN_PROGRESS)]]\<rparr>)
   \<and> within_budget 5 0 (1, 5, 0, Inr H5ES_STATUS_SUCCEED)
   \<and> within_budget 5 0 (0, 0, 5, Inr H5ES_STATUS_IN_PROGRESS)
   \<and> H5ESwait demo_runtime (demo_world es_succeed_then_busy) 1 0 (Some 0) (Some False)
     = Returns (SUCCEED, Some 1, Some False,
         (demo_world es_succeed_then_busy)
           \<lparr>ids := H5I_object_update (ids (demo_world es_succeed_then_busy)) 1
                    \<lparr>active = [demo_op 0 1 H5ES_STATUS_IN_PROGRESS], failed = [],
                     op_counter = 2, err_occurred = False\<rparr>,
            runtime := 0,
            poll_log := [[(1, 0, 0, Inr H5ES_STATUS_SUCCEED),
                          (0, 0, 0, Inr H5ES_STATUS_IN_PROGRESS)]]\<rparr>)
   \<and> map poll_token [(1, 0, 0, Inr H5ES_STATUS_SUCCEED), (0, 0, 0, Inr H5ES_STATUS_IN_PROGRESS)]
       = map token (active es_succeed_then_busy)
   \<and> budget_of (1, 0, 0, Inr H5ES_STATUS_SUCCEED) = 0
   \<and> budget_of (0, 0, 0, Inr H5ES_STATUS_IN_PROGRESS) = 0
   \<and> clock_advances demo_ticking_runtime
   \<and> H5ESwait demo_ticking_runtime (demo_world es_succeed_then_busy) 1 5 (Some 0) (Some False)
     = Returns (SUCCEED, Some 1, Some False,
         (demo_world es_succeed_then_busy)
           \<lparr>ids := H5I_object_update (ids (demo_world es_succeed_then_busy)) 1
                    \<lparr>active = [demo_op 0 1 H5ES_STATUS_IN_PROGRESS], failed = [],
                     op_counter = 2, err_occurred = False\<rparr>,
            runtime := 8,
            poll_log := [[(1, 5, 0, Inr H5ES_STATUS_SUCCEED), (0, 0, 6, Inr H5ES_STATUS_IN_PROGRESS)],
                         [(0, 0, 7, Inr H5ES_STATUS_IN_PROGRESS)]]\<rparr>)
   \<and> within_budget 5 0 (0, 0, 6, Inr H5ES_STATUS_IN_PROGRESS)
   \<and> within_budget 5 0 (0, 0, 7, Inr H5ES_STATUS_IN_PROGRESS)"
proof -
  let ?w = "demo_world es_succeed_then_busy"
  let ?es' = "\<lparr>active = [demo_op 0 1 H5ES_STATUS_IN_PROGRESS], failed = [],
                     op_counter = 2, err_occurred = False\<rparr>"
  let ?wf = "?w\<lparr>ids := H5I_object_update (ids ?w) 1 ?es', runtime := 5,
            poll_log := [[(1, 5, 0, Inr H5ES_STATUS_SUCCEED), (0, 0, 5, Inr H5ES_STATUS_IN_PROGRESS)],
                         [(0, 0, 5, Inr H5ES_STATUS_IN_PROGRESS)]]\<rparr>"
  let ?wz = "?w\<lparr>ids := H5I_object_update (ids ?w) 1 ?es', runtime := 0,
            poll_log := [[(1, 0, 0, Inr H5ES_STATUS_SUCCEED),
                          (0, 0, 0, Inr H5ES_STATUS_IN_PROGRESS)]]\<rparr>"
  have run5: "H5ESwait demo_runtime ?w 1 5 (Some 0) (Some False)
     = Returns (SUCCEED, Some 1, Some False, ?wf)"
  proof -
    have w5: "H5ES__wait demo_runtime (es_succeed_then_busy, runtime ?w, poll_log ?w)
                (unat (5::64 word))
      = Some (Inr (1, False), ?es', 5,
             [[(1, 5, 0, Inr H5ES_STATUS_SUCCEED), (0, 0, 5, Inr H5ES_STATUS_IN_PROGRESS)],
              [(0, 0, 5, Inr H5ES_STATUS_IN_PROGRESS)]])"
      using demo_wait_timeout_5 by (simp add: demo_world_def)
    from H5ESwait_run[OF demo_world_verify w5, of 0 False] show ?thesis by simp
  qed
  have run0: "H5ESwait demo_runtime ?w 1 0 (Some 0) (Some False)
     = Returns (SUCCEED, Some 1, Some False, ?wz)"
  proof -
    have w0: "H5ES__wait demo_runtime (es_succeed_then_busy, runtime ?w, poll_log ?w)
                (unat (0::64 word))
      = Some (Inr (1, False), ?es', 0,
             [[(1, 0, 0, Inr H5ES_STATUS_SUCCEED), (0, 0, 0, Inr H5ES_STATUS_IN_PROGRESS)]])"
      using demo_wait_timeout_0 by (simp add: demo_world_def)
    from H5ESwait_run[OF demo_world_verify w0, of 0 False] show ?thesis by simp
  qed
  note inst = H5ESwait_shared_budget[where E = demo_runtime and w = ?w and es_id = 1
      and timeout = 5 and nip = "Some 0" and opf = "Some False" and r = SUCCEED
      and nip' = "Some 1" and opf' = "Some False" and w' = ?wf and es = es_succeed_then_busy
      and t_start = 0 and kept = "[]" and rs = "[]"
      and c = "\<lparr>ctx_es = es_succeed_then_busy, ctx_rt = 0, ctx_polls = [],
                 any_failed = False, any_succeeded = False\<rparr>"]
  have pl: "poll_log ?w = []" and rt: "now_ns demo_runtime (runtime ?w) = 0"
    by (simp_all add: demo_world_def demo_runtime_def)
  from inst run5 have "\<exists>new. poll_log ?wf = poll_log ?w @ new
         \<and> (\<forall>ev\<in>set (concat new). within_budget (unat (5::64 word))
               (now_ns demo_runtime (runtime ?w)) ev)"
    by blast
  with pl rt have
    b: "within_budget 5 0 (1, 5, 0, Inr H5ES_STATUS_SUCCEED)
      \<and> within_budget 5 0 (0, 0, 5, Inr H5ES_STATUS_IN_PROGRESS)"
    by simp
  from inst have "\<exists>r nip' opf' w' sw. H5ESwait demo_runtime ?w 1 0 (Some 0) (Some False)
           = Returns (r, nip', opf', w')
         \<and> poll_log w' = poll_log ?w @ [sw]
         \<and> (\<forall>ev\<in>set sw. budget_of ev = 0)
         \<and> map poll_token sw = take (length sw) (map token (active es_succeed_then_busy))
         \<and> (r = SUCCEED \<longrightarrow> map poll_token sw = map token (active es_succeed_then_busy))"
    by simp
  with run0 pl have
    z: "(\<forall>ev\<in>set [(1, 0, 0, Inr H5ES_STATUS_SUCCEED), (0::nat, 0::nat, 0::nat, Inr H5ES_STATUS_IN_PROGRESS)].
            budget_of ev = 0)
      \<and> map poll_token [(1, 0, 0, Inr H5ES_STATUS_SUCCEED), (0, 0, 0, Inr H5ES_STATUS_IN_PROGRESS)]
          = map token (active es_succeed_then_busy)"
    by auto
  let ?wt = "?w\<lparr>ids := H5I_object_update (ids ?w) 1 ?es', runtime := 8,
            poll_log := [[(1, 5, 0, Inr H5ES_STATUS_SUCCEED), (0, 0, 6, Inr H5ES_STATUS_IN_PROGRESS)],
                         [(0, 0, 7, Inr H5ES_STATUS_IN_PROGRESS)]]\<rparr>"
  have runt: "H5ESwait demo_ticking_runtime ?w 1 5 (Some 0) (Some False)
     = Returns (SUCCEED, Some 1, Some False, ?wt)"
  proof -
    have wt: "H5ES__wait demo_ticking_runtime (es_succeed_then_busy, runtime ?w, poll_log ?w)
                (unat (5::64 word))
      = Some (Inr (1, False), ?es', 8,
             [[(1, 5, 0, Inr H5ES_STATUS_SUCCEED), (0, 0, 6, Inr H5ES_STATUS_IN_PROGRESS)],
              [(0, 0, 7, Inr H5ES_STATUS_IN_PROGRESS)]])"
      using demo_wait_ticking_5 by (simp add: demo_world_def)
    from H5ESwait_run[OF demo_world_verify wt, of 0 False] show ?thesis by simp
  qed
  note tick = H5ESwait_shared_budget[where E = demo_ticking_runtime and w = ?w and es_id = 1
      and timeout = 5 and nip = "Some 0" and opf = "Some False" and r = SUCCEED
      and nip' = "Some 1" and opf' = "Some False" and w' = ?wt and es = es_succeed_then_busy
      and t_start = 0 and kept = "[]" and rs = "[]"
      and c = "\<lparr>ctx_es = es_succeed_then_busy, ctx_rt = 0, ctx_polls = [],
                 any_failed = False, any_succeeded = False\<rparr>"]
  have rtt: "now_ns demo_ticking_runtime (runtime ?w) = 0"
    by (simp add: demo_world_def demo_ticking_runtime_def demo_runtime_def)
  from tick demo_ticking_advances
  have "\<exists>r nip' opf' w' new. H5ESwait demo_ticking_runtime ?w 1 5 (Some 0) (Some False)
           = Returns (r, nip', opf', w')
         \<and> poll_log w' = poll_log ?w @ new
         \<and> (\<forall>ev\<in>set (concat new). within_budget (unat (5::64 word))
               (now_ns demo_ticking_runtime (runtime ?w)) ev)"
    by simp
  with runt pl rtt have
    bt: "within_budget 5 0 (0, 0, 6, Inr H5ES_STATUS_IN_PROGRESS)
       \<and> within_budget 5 0 (0, 0, 7, Inr H5ES_STATUS_IN_PROGRESS)"
    by auto
  from run5 run0 b z demo_ticking_advances runt bt show ?thesis by simp
qed

section \<open>Closing\<close>

text \<open>
  C3. On an event set whose active list is not empty \<open>H5ESclose\<close> fails,
  the error stack being \<open>(H5E_EVENTSET, H5E_CANTDEC)\<close> on top of
  \<open>BUSY\<close>, and the registry, the set and its records, like the rest of
  the state, are as before. On an event set whose active list is empty it
  succeeds: the token of every record in the failed list is released and the
  set is freed, its identifier no longer registered.
\<close>

theorem H5ESclose_refuses_active:
  assumes "H5I_object_verify (ids w) es_id H5I_EVENTSET = Some es"
  shows "(active es \<noteq> [] \<longrightarrow>
            H5ESclose E w es_id
              = Returns (FAIL [(H5E_EVENTSET, H5E_CANTDEC), (H5E_EVENTSET, BUSY)], w))
       \<and> (active es = [] \<longrightarrow>
            H5ESclose E w es_id
              = Returns (SUCCEED,
                         w\<lparr>ids := (ids w)(es_id := None),
                           runtime := foldl (release E) (runtime w) (map token (failed es))\<rparr>)
          \<and> H5I_get_type ((ids w)(es_id := None)) es_id = H5I_BADID)"
  using assms
  by (auto simp: H5ESclose_def H5I_get_type_def H5I_object_verify_def H5I_dec_app_ref_def
      H5ES__close_def H5ES__list_count_def split: option.splits H5I_object.splits if_splits)

theorem H5ESclose_refuses_active_witness:
  "H5ESclose demo_runtime (demo_world es_both_fail) 1
     = Returns (FAIL [(H5E_EVENTSET, H5E_CANTDEC), (H5E_EVENTSET, BUSY)], demo_world es_both_fail)
   \<and> H5ESclose demo_runtime (demo_world es_three_failed) 1
     = Returns (SUCCEED,
                (demo_world es_three_failed)
                  \<lparr>ids := (ids (demo_world es_three_failed))(1 := None), runtime := 0\<rparr>)"
proof -
  have a: "active es_both_fail \<noteq> []" "active es_three_failed = []"
    by (simp_all add: es_both_fail_def es_three_failed_def)
  have r: "foldl (release demo_runtime) (runtime (demo_world es_three_failed))
             (map token (failed es_three_failed)) = 0"
    by (simp add: demo_runtime_def demo_world_def es_three_failed_def)
  show ?thesis
    using H5ESclose_refuses_active[where w = "demo_world es_both_fail" and es_id = 1
        and es = es_both_fail and E = demo_runtime]
      H5ESclose_refuses_active[where w = "demo_world es_three_failed" and es_id = 1
        and es = es_three_failed and E = demo_runtime] a r
    by simp
qed

section \<open>Draining the failed list\<close>

lemma walk_ok:
  assumes "\<forall>rt. \<forall>r\<in>set rs. \<exists>d rt'. snapshot_diagnostics E rt (token r) = (Inr d, rt')"
  shows "\<exists>infos rt'. H5ES__get_err_info_walk E n rs rt = (None, infos, drop n rs, rt')
           \<and> length infos = min n (length rs)
           \<and> map ei_counter infos = map counter (take n rs)
           \<and> map ei_status infos = map status (take n rs)"
  using assms
proof (induction rs arbitrary: n rt)
  case Nil
  then show ?case by (cases n) simp_all
next
  case (Cons r rs)
  show ?case
  proof (cases n)
    case 0
    then show ?thesis by simp
  next
    case (Suc m)
    from Cons.prems obtain d rt1 where d: "snapshot_diagnostics E rt (token r) = (Inr d, rt1)"
      by (metis list.set_intros(1))
    from Cons.prems have all:
      "\<forall>rt. \<forall>r\<in>set rs. \<exists>d rt'. snapshot_diagnostics E rt (token r) = (Inr d, rt')"
      by simp
    from Cons.IH[OF all, of m "release E rt1 (token r)"] obtain infos rt' where
      i: "H5ES__get_err_info_walk E m rs (release E rt1 (token r)) = (None, infos, drop m rs, rt')"
         "length infos = min m (length rs)" "map ei_counter infos = map counter (take m rs)"
         "map ei_status infos = map status (take m rs)"
      by blast
    show ?thesis using Suc d i by (simp add: err_info_of_def)
  qed
qed

lemma H5I_verify_update:
  assumes "H5I_object_verify reg hid H5I_EVENTSET = Some es"
  shows "H5I_object_verify (H5I_object_update reg hid es') hid H5I_EVENTSET = Some es'"
  using assms
  by (auto simp: H5I_object_verify_def H5I_object_update_def
      split: option.splits H5I_object.splits if_splits)

text \<open>
  C6. On an event set, with an array of at least \<open>max_info\<close> entries and a
  runtime that delivers the diagnostics of the failed records,
  \<open>H5ESget_err_info\<close> succeeds and drains the first
  \<open>min max_info (length failed)\<close> failed records. The error flag after the
  call is the flag before, cleared exactly when the number drained equals the
  number of failed records before the call, is positive, and no failed record
  remains; a partial drain leaves the flag as it was. \<open>H5ESget_err_status\<close>
  then reads that flag and \<open>H5ESget_err_count\<close> the number of records left
  (0 once the flag is clear). With three failed records, draining two leaves
  the flag set and a count of 1; draining the last one clears the flag and the
  count is 0.
\<close>

theorem H5ESget_err_info_drains:
  assumes valid: "H5I_object_verify (ids w) es_id H5I_EVENTSET = Some es"
    and args: "0 < max_info" "max_info \<le> length buf"
    and diag: "\<forall>rt. \<forall>r\<in>set (failed es). \<exists>d rt'. snapshot_diagnostics E rt (token r) = (Inr d, rt')"
  shows "\<exists>infos w' es'. 
           H5ESget_err_info E w es_id max_info (Some buf) (Some c0)
             = Returns (SUCCEED, Some (infos @ drop (length infos) buf),
                        Some (min max_info (length (failed es))), w')
         \<and> length infos = min max_info (length (failed es))
         \<and> map ei_counter infos = map counter (take max_info (failed es))
         \<and> H5I_object_verify (ids w') es_id H5I_EVENTSET = Some es'
         \<and> failed es' = drop max_info (failed es)
         \<and> err_occurred es'
             = (err_occurred es
                \<and> \<not> (min max_info (length (failed es)) = length (failed es)
                      \<and> 0 < min max_info (length (failed es)) \<and> failed es' = []))
         \<and> H5ESget_err_status w' es_id (Some s0) = Returns (SUCCEED, Some (err_occurred es'), w')
         \<and> H5ESget_err_count w' es_id (Some k0)
             = Returns (SUCCEED,
                        Some (if err_occurred es'
                              then length (failed es) - min max_info (length (failed es)) else 0),
                        w')"
proof -
  let ?n = "length (failed es)"
  from walk_ok[OF diag, of max_info "runtime w"] obtain infos rt' where
    wk: "H5ES__get_err_info_walk E max_info (failed es) (runtime w)
           = (None, infos, drop max_info (failed es), rt')"
        "length infos = min max_info ?n"
        "map ei_counter infos = map counter (take max_info (failed es))"
    by blast
  let ?es1 = "es\<lparr>failed := drop max_info (failed es)\<rparr>"
  let ?es' = "if length infos = ?n \<and> length infos > 0 \<and> drop max_info (failed es) = []
              then ?es1\<lparr>err_occurred := False\<rparr> else ?es1"
  have eng: "H5ES__get_err_info E es (runtime w) max_info
               = (Inr (infos, length infos), ?es', rt')"
    using wk(1) by (simp add: H5ES__get_err_info_def H5ES__list_count_def Let_def)
  let ?w' = "w\<lparr>ids := H5I_object_update (ids w) es_id ?es', runtime := rt'\<rparr>"
  have st: "array_store (Some buf) infos = Some (Some (infos @ drop (length infos) buf))"
    using wk(2) args by (simp add: array_store_def)
  have run: "H5ESget_err_info E w es_id max_info (Some buf) (Some c0)
             = Returns (SUCCEED, Some (infos @ drop (length infos) buf), Some (length infos), ?w')"
    using valid args eng st by (simp add: H5ESget_err_info_def ptr_store_def)
  have v': "H5I_object_verify (ids ?w') es_id H5I_EVENTSET = Some ?es'"
    using H5I_verify_update[OF valid] by simp
  have f': "failed ?es' = drop max_info (failed es)" by simp
  have e': "err_occurred ?es'
             = (err_occurred es
                \<and> \<not> (min max_info ?n = ?n \<and> 0 < min max_info ?n \<and> failed ?es' = []))"
    using wk(2) by simp
  have s': "H5ESget_err_status ?w' es_id (Some s0) = Returns (SUCCEED, Some (err_occurred ?es'), ?w')"
    using v' by (simp add: H5ESget_err_status_def ptr_store_def)
  have c': "H5ESget_err_count ?w' es_id (Some k0)
             = Returns (SUCCEED, Some (if err_occurred ?es' then ?n - min max_info ?n else 0), ?w')"
  proof -
    have "?n - max_info = ?n - min max_info ?n" by (simp add: min_def)
    then show ?thesis
      using v' by (simp add: H5ESget_err_count_def ptr_store_def H5ES__list_count_def)
  qed
  show ?thesis
    apply (rule exI[of _ infos], rule exI[of _ ?w'], rule exI[of _ ?es'])
    using run wk(2,3) v' f' e' s' c' by simp
qed

lemma demo_get_err_info_2:
  "H5ES__get_err_info demo_runtime es_three_failed 0 2
     = (Inr ([err_info_of (demo_op 2 0 H5ES_STATUS_FAIL) [''frame''],
              err_info_of (demo_op 3 1 H5ES_STATUS_CANCEL) [''frame'']], 2),
        es_one_failed, 0)"
  by code_simp

theorem H5ESget_err_info_drains_witness:
  "H5ESget_err_info demo_runtime (demo_world es_three_failed) 1 2
       (Some [blank_info, blank_info]) (Some 0)
     = Returns (SUCCEED,
                Some [err_info_of (demo_op 2 0 H5ES_STATUS_FAIL) [''frame''],
                      err_info_of (demo_op 3 1 H5ES_STATUS_CANCEL) [''frame'']],
                Some 2,
                (demo_world es_three_failed)
                  \<lparr>ids := H5I_object_update (ids (demo_world es_three_failed)) 1 es_one_failed,
                   runtime := 0\<rparr>)
   \<and> (\<exists>w1. H5ESget_err_info demo_runtime (demo_world es_three_failed) 1 2
               (Some [blank_info, blank_info]) (Some 0)
             = Returns (SUCCEED,
                        Some [err_info_of (demo_op 2 0 H5ES_STATUS_FAIL) [''frame''],
                              err_info_of (demo_op 3 1 H5ES_STATUS_CANCEL) [''frame'']],
                        Some 2, w1)
         \<and> H5ESget_err_status w1 1 (Some False) = Returns (SUCCEED, Some True, w1)
         \<and> H5ESget_err_count w1 1 (Some 0) = Returns (SUCCEED, Some 1, w1)
         \<and> (\<exists>buf w2. H5ESget_err_info demo_runtime w1 1 1 (Some [blank_info]) (Some 0)
                        = Returns (SUCCEED, buf, Some 1, w2)
               \<and> H5ESget_err_status w2 1 (Some True) = Returns (SUCCEED, Some False, w2)
               \<and> H5ESget_err_count w2 1 (Some 5) = Returns (SUCCEED, Some 0, w2)))"
proof -
  let ?w0 = "demo_world es_three_failed"
  let ?w1 = "?w0\<lparr>ids := H5I_object_update (ids ?w0) 1 es_one_failed, runtime := 0\<rparr>"
  let ?infos = "[err_info_of (demo_op 2 0 H5ES_STATUS_FAIL) [''frame''],
                 err_info_of (demo_op 3 1 H5ES_STATUS_CANCEL) [''frame'']]"
  have run1: "H5ESget_err_info demo_runtime ?w0 1 2 (Some [blank_info, blank_info]) (Some 0)
     = Returns (SUCCEED, Some ?infos, Some 2, ?w1)"
    using demo_get_err_info_2
    by (simp add: H5ESget_err_info_def array_store_def ptr_store_def demo_world_def
        H5I_object_verify_def)
  have v1: "H5I_object_verify (ids ?w1) 1 H5I_EVENTSET = Some es_one_failed"
    using H5I_verify_update[OF demo_world_verify] by simp
  have d1: "\<forall>rt. \<forall>r\<in>set (failed es_one_failed).
              \<exists>d rt'. snapshot_diagnostics demo_runtime rt (token r) = (Inr d, rt')"
    by (simp add: es_one_failed_def demo_runtime_def demo_op_def)
  have d0: "\<forall>rt. \<forall>r\<in>set (failed es_three_failed).
              \<exists>d rt'. snapshot_diagnostics demo_runtime rt (token r) = (Inr d, rt')"
    by (simp add: es_three_failed_def demo_runtime_def demo_op_def)
  have l0: "length (failed es_three_failed) = 3" "err_occurred es_three_failed"
    by (simp_all add: es_three_failed_def)
  have l1: "length (failed es_one_failed) = 1" "err_occurred es_one_failed"
    by (simp_all add: es_one_failed_def)
  from H5ESget_err_info_drains[where w = ?w0 and es_id = 1 and es = es_three_failed
      and max_info = 2 and buf = "[blank_info, blank_info]" and E = demo_runtime
      and ?c0.0 = 0 and ?s0.0 = False and ?k0.0 = 0] d0 l0 run1
  have first: "H5ESget_err_status ?w1 1 (Some False) = Returns (SUCCEED, Some True, ?w1)
             \<and> H5ESget_err_count ?w1 1 (Some 0) = Returns (SUCCEED, Some 1, ?w1)"
    by auto
  from H5ESget_err_info_drains[where w = ?w1 and es_id = 1 and es = es_one_failed
      and max_info = 1 and buf = "[blank_info]" and E = demo_runtime
      and ?c0.0 = 0 and ?s0.0 = True and ?k0.0 = 5] v1 d1 l1
  have second: "\<exists>buf w2. H5ESget_err_info demo_runtime ?w1 1 1 (Some [blank_info]) (Some 0)
                        = Returns (SUCCEED, buf, Some 1, w2)
               \<and> H5ESget_err_status w2 1 (Some True) = Returns (SUCCEED, Some False, w2)
               \<and> H5ESget_err_count w2 1 (Some 5) = Returns (SUCCEED, Some 0, w2)"
    by auto
  from run1 first second show ?thesis by blast
qed

section \<open>Operation counters\<close>

lemma es_append_all_counters:
  "map counter (active (foldl es_append es rs))
     = map counter (active es) @ map (\<lambda>i. op_counter es + of_nat i) [0..<length rs]
   \<and> op_counter (foldl es_append es rs) = op_counter es + of_nat (length rs)"
proof (induction rs arbitrary: es)
  case Nil
  then show ?case by simp
next
  case (Cons r rs)
  have u: "[0..<Suc (length rs)] = 0 # map Suc [0..<length rs]"
    by (simp add: upt_conv_Cons map_Suc_upt del: upt_Suc)
  have "map (\<lambda>i. op_counter es + of_nat i) [0..<length (r # rs)]
      = op_counter es # map (\<lambda>i. op_counter es + 1 + of_nat i) [0..<length rs]"
    unfolding list.size(4) by (simp add: u comp_def algebra_simps del: upt_Suc)
  with Cons[of "es_append es r"] show ?case
    by (simp add: es_append_def algebra_simps)
qed

lemma of_nat_counters_sorted:
  assumes "n \<le> 2 ^ 64"
  shows "sorted_wrt (<) (map (of_nat :: nat \<Rightarrow> 64 word) [0..<n])"
proof -
  have "(of_nat i :: 64 word) < of_nat j" if "i < j" "j < n" for i j
  proof -
    from that assms have "i < 2 ^ 64" "j < 2 ^ 64" by simp_all
    then have "take_bit 64 i = i" "take_bit 64 j = j" by (simp_all add: take_bit_nat_eq_self)
    with that(1) show ?thesis by (simp add: word_of_nat_less_iff)
  qed
  then show ?thesis by (simp add: sorted_wrt_iff_nth_less)
qed

lemma get_err_info_op_counter:
  "op_counter (fst (snd (H5ES__get_err_info E es rt n))) = op_counter es"
  by (simp add: H5ES__get_err_info_def Let_def split: prod.splits option.splits)

text \<open>
  C7, as amended. Successive appends to an event set assign the counters
  \<open>op_counter\<close>, \<open>op_counter + 1\<close>, ... (in 64-bit arithmetic) and advance
  \<open>op_counter\<close> by their number; on a fresh set these are 0, 1, 2, ...: a
  contiguous sequence starting at 0, so the first counter is zero. As long as
  at most \<open>2 ^ 64\<close> appends are made they are strictly increasing, hence
  unique. \<open>H5ESget_op_counter\<close> stores exactly the counter that the next
  append assigns. The wait engine and the error-info extractor leave
  \<open>op_counter\<close> as it is, so the sequence continues across them.
\<close>

theorem append_counters:
  "map counter (active (foldl es_append es rs))
     = map counter (active es) @ map (\<lambda>i. op_counter es + of_nat i) [0..<length rs]
   \<and> op_counter (foldl es_append es rs) = op_counter es + of_nat (length rs)
   \<and> map counter (active (foldl es_append H5ES__create rs)) = map of_nat [0..<length rs]
   \<and> (length rs \<le> 2 ^ 64 \<longrightarrow>
        sorted_wrt (<) (map counter (active (foldl es_append H5ES__create rs)))
      \<and> distinct (map counter (active (foldl es_append H5ES__create rs))))
   \<and> (H5I_object_verify (ids w) es_id H5I_EVENTSET = Some es \<longrightarrow>
        H5ESget_op_counter w es_id (Some c0)
          = Returns (SUCCEED, Some (counter (last (active (es_append es r)))), w))
   \<and> (H5ES__wait E (es, rt, lg) timeout_ns = Some (res, es', rt', lg') \<longrightarrow>
        op_counter es' = op_counter es)
   \<and> op_counter (fst (snd (H5ES__get_err_info E es rt n))) = op_counter es"
proof -
  have fresh: "map counter (active (foldl es_append H5ES__create rs)) = map of_nat [0..<length rs]"
    using es_append_all_counters[of H5ES__create rs] by (simp add: H5ES__create_def)
  have srt: "length rs \<le> 2 ^ 64 \<longrightarrow>
        sorted_wrt (<) (map counter (active (foldl es_append H5ES__create rs)))
      \<and> distinct (map counter (active (foldl es_append H5ES__create rs)))"
    unfolding fresh using of_nat_counters_sorted[of "length rs"] by (simp add: strict_sorted_iff)
  have peek: "H5I_object_verify (ids w) es_id H5I_EVENTSET = Some es \<longrightarrow>
        H5ESget_op_counter w es_id (Some c0)
          = Returns (SUCCEED, Some (counter (last (active (es_append es r)))), w)"
    by (simp add: H5ESget_op_counter_def ptr_store_def es_append_def)
  have wt: "H5ES__wait E (es, rt, lg) timeout_ns = Some (res, es', rt', lg') \<longrightarrow>
        op_counter es' = op_counter es"
    using wait_partial[of E es rt lg timeout_ns res es' rt' lg'] by blast
  from es_append_all_counters[of es rs] fresh srt peek wt get_err_info_op_counter[of E es rt n]
  show ?thesis by blast
qed

text \<open>
  C7 as stated does not hold: the counter assigned by the first append to a
  fresh event set is 0, not a non-zero integer.
\<close>

theorem first_counter_is_zero:
  "counter (last (active (es_append H5ES__create (demo_op 0 7 H5ES_STATUS_IN_PROGRESS)))) = 0"
  by (simp add: es_append_def H5ES__create_def)

theorem append_counters_witness:
  "map counter (active (foldl es_append H5ES__create
       [demo_op 0 7 H5ES_STATUS_IN_PROGRESS, demo_op 1 7 H5ES_STATUS_IN_PROGRESS,
        demo_op 2 7 H5ES_STATUS_IN_PROGRESS])) = [0, 1, 2]
   \<and> (3::nat) \<le> 2 ^ 64
   \<and> sorted_wrt (<) [0, 1, 2 :: 64 word] \<and> distinct [0, 1, 2 :: 64 word]
   \<and> H5I_object_verify (ids (demo_world es_runtime_error)) 1 H5I_EVENTSET = Some es_runtime_error
   \<and> H5ESget_op_counter (demo_world es_runtime_error) 1 (Some 0)
       = Returns (SUCCEED, Some 1, demo_world es_runtime_error)
   \<and> counter (last (active (es_append es_runtime_error (demo_op 0 7 H5ES_STATUS_IN_PROGRESS)))) = 1
   \<and> H5ES__wait demo_runtime (es_runtime_error, 0, []) 10
       = Some (Inl [(H5E_MAJOR_OTHER 0, H5E_MINOR_OTHER 0)], es_runtime_error, 10,
               [[(4, 10, 0, Inl [(H5E_MAJOR_OTHER 0, H5E_MINOR_OTHER 0)])]])"
proof -
  let ?rs = "[demo_op 0 7 H5ES_STATUS_IN_PROGRESS, demo_op 1 7 H5ES_STATUS_IN_PROGRESS,
        demo_op 2 7 H5ES_STATUS_IN_PROGRESS]"
  note inst = append_counters[where rs = ?rs and es = es_runtime_error
      and w = "demo_world es_runtime_error" and es_id = 1 and ?c0.0 = 0
      and r = "demo_op 0 7 H5ES_STATUS_IN_PROGRESS" and E = demo_runtime and rt = 0
      and lg = "[]" and timeout_ns = 10
      and res = "Inl [(H5E_MAJOR_OTHER 0, H5E_MINOR_OTHER 0)]" and es' = es_runtime_error
      and rt' = 10 and lg' = "[[(4, 10, 0, Inl [(H5E_MAJOR_OTHER 0, H5E_MINOR_OTHER 0)])]]"
      and n = 1]
  have u: "[0..<3] = [0, 1, 2]" by (simp add: upt_conv_Cons)
  have n: "length ?rs = 3" "(3::nat) \<le> 2 ^ 64" by simp_all
  from inst have "map counter (active (foldl es_append H5ES__create ?rs)) = map of_nat [0..<length ?rs]"
    by blast
  then have c: "map counter (active (foldl es_append H5ES__create ?rs)) = [0, 1, 2]"
    unfolding n(1) u by simp
  from inst have "length ?rs \<le> 2 ^ 64 \<longrightarrow>
        sorted_wrt (<) (map counter (active (foldl es_append H5ES__create ?rs)))
      \<and> distinct (map counter (active (foldl es_append H5ES__create ?rs)))"
    by blast
  with n have s: "sorted_wrt (<) [0, 1, 2 :: 64 word] \<and> distinct [0, 1, 2 :: 64 word]"
    unfolding c by simp
  have l: "counter (last (active (es_append es_runtime_error (demo_op 0 7 H5ES_STATUS_IN_PROGRESS)))) = 1"
    by (simp add: es_append_def es_runtime_error_def)
  from inst have "H5I_object_verify (ids (demo_world es_runtime_error)) 1 H5I_EVENTSET
          = Some es_runtime_error \<longrightarrow>
        H5ESget_op_counter (demo_world es_runtime_error) 1 (Some 0)
          = Returns (SUCCEED,
              Some (counter (last (active (es_append es_runtime_error
                      (demo_op 0 7 H5ES_STATUS_IN_PROGRESS))))),
              demo_world es_runtime_error)"
    by blast
  then have p: "H5ESget_op_counter (demo_world es_runtime_error) 1 (Some 0)
       = Returns (SUCCEED, Some 1, demo_world es_runtime_error)"
    unfolding l by simp
  from c n(2) s p l demo_wait_runtime_error show ?thesis by simp
qed

end
